theory Spec2Isabelle
  imports Complex_Main
begin

section \<open>LXC autoscaler: metrics models, scaling models and the scaling engine\<close>

text \<open>
  A shallow embedding of \<^verbatim>\<open>lxc_autoscaler/metrics/models.py\<close>,
  \<^verbatim>\<open>lxc_autoscaler/scaling/models.py\<close>, \<^verbatim>\<open>lxc_autoscaler/config/models.py\<close> and
  \<^verbatim>\<open>lxc_autoscaler/scaling/engine.py\<close>.

  Conventions.
  \<^item> Python \<^verbatim>\<open>float\<close> values (percentages, timestamps) are modelled as \<open>real\<close>: comparisons
    and means are the exact ones, rounding is not modelled. Python \<^verbatim>\<open>int\<close> is \<open>int\<close>.
  \<^item> A dataclass is a record with the fields of the source. Where two dataclasses have a
    field of the same name the selector is written qualified (\<open>ResourceMetrics.timestamp\<close>,
    \<open>ScalingDecision.timestamp\<close>).
  \<^item> Every read of \<^verbatim>\<open>time.time()\<close> is a parameter (\<open>now\<close>) of the function that reads it.
  \<^item> An exception is a value \<open>Inl e\<close> of a sum type.
  \<^item> The awaited Gateway call \<^verbatim>\<open>client.resize_container\<close> is a parameter: it returns
    \<open>None\<close> when the call returns and \<open>Some msg\<close> when it raises an exception with text
    \<open>msg\<close>. Each call is appended to the field \<open>resize_calls\<close> of the engine state.
\<close>

subsection \<open>Errors\<close>

datatype error = AttributeError | ZeroDivisionError | ScalingEngineError

subsection \<open>metrics/models.py\<close>

record ResourceMetrics =
  timestamp :: real
  cpu_usage_percent :: real
  memory_usage_percent :: real
  memory_used_mb :: int
  memory_total_mb :: int
  cpu_cores :: int

text \<open>Python's \<^verbatim>\<open>int(x)\<close> on a number: truncation towards zero.\<close>

definition py_int :: "real \<Rightarrow> int" where
  "py_int x = (if 0 \<le> x then \<lfloor>x\<rfloor> else \<lceil>x\<rceil>)"

text \<open>
  \<^verbatim>\<open>ResourceMetrics.from_rrd_data(rrd_point, config)\<close>. The RRD point is a dictionary of
  numbers, the container configuration a dictionary of which only the integer entry
  \<^verbatim>\<open>cores\<close> is read. \<open>now\<close> is the value \<^verbatim>\<open>time.time()\<close> has when the default of
  \<^verbatim>\<open>rrd_point.get('time', time.time())\<close> is evaluated.
\<close>

definition from_rrd_data :: "(string \<rightharpoonup> real) \<Rightarrow> (string \<rightharpoonup> int) \<Rightarrow> real \<Rightarrow> ResourceMetrics" where
  "from_rrd_data rrd_point config now =
     (let ts = (case rrd_point ''time'' of Some t \<Rightarrow> t | None \<Rightarrow> now);
          cpu_usage = (case rrd_point ''cpu'' of Some c \<Rightarrow> c | None \<Rightarrow> 0) * 100;
          memory_used = py_int (case rrd_point ''mem'' of Some m \<Rightarrow> m | None \<Rightarrow> 0);
          memory_max = py_int (case rrd_point ''maxmem'' of Some m \<Rightarrow> m | None \<Rightarrow> 1);
          used_mb = memory_used div (1024 * 1024);
          total_mb = memory_max div (1024 * 1024);
          usage_percent =
            (if memory_max > 0 then real_of_int memory_used / real_of_int memory_max * 100 else 0);
          cores = (case config ''cores'' of Some c \<Rightarrow> c | None \<Rightarrow> 1)
      in \<lparr>timestamp = ts,
          cpu_usage_percent = cpu_usage,
          memory_usage_percent = usage_percent,
          memory_used_mb = used_mb,
          memory_total_mb = total_mb,
          cpu_cores = cores\<rparr>)"

record ContainerMetrics =
  vmid :: int
  node :: string
  name :: string
  status :: string
  uptime :: int
  current_metrics :: "ResourceMetrics option"
  historical_metrics :: "ResourceMetrics list"

text \<open>
  The Python slice \<^verbatim>\<open>xs[-n:]\<close>: the last \<open>n\<close> elements (all of them when the list is
  shorter) for \<open>n > 0\<close>, the whole list for \<open>n = 0\<close> (\<^verbatim>\<open>xs[-0:]\<close> is \<^verbatim>\<open>xs[0:]\<close>), and
  \<^verbatim>\<open>xs[k:]\<close> for \<open>n = -k < 0\<close>.
\<close>

definition slice_last :: "int \<Rightarrow> 'a list \<Rightarrow> 'a list" where
  "slice_last n xs =
     (if n > 0 then drop (length xs - nat n) xs
      else if n = 0 then xs
      else drop (nat (- n)) xs)"

definition add_metrics :: "ContainerMetrics \<Rightarrow> ResourceMetrics \<Rightarrow> ContainerMetrics" where
  "add_metrics self metrics =
     (let appended = historical_metrics self @ [metrics]
      in self\<lparr>current_metrics := Some metrics,
              historical_metrics :=
                (if length appended > 100 then slice_last 100 appended else appended)\<rparr>)"

text \<open>
  \<^verbatim>\<open>get_average_metrics\<close>. The division by \<^verbatim>\<open>len(recent_metrics)\<close> raises
  \<^verbatim>\<open>ZeroDivisionError\<close> when the slice is empty, which needs \<open>periods \<le> 0\<close>.
\<close>

definition get_average_metrics :: "ContainerMetrics \<Rightarrow> int \<Rightarrow> error + ResourceMetrics option" where
  "get_average_metrics self periods =
     (if int (length (historical_metrics self)) < periods then Inr None
      else
        (let recent_metrics = slice_last periods (historical_metrics self)
         in if recent_metrics = [] then Inl ZeroDivisionError
            else
              (let avg_cpu = sum_list (map cpu_usage_percent recent_metrics)
                               / real (length recent_metrics);
                   avg_memory = sum_list (map memory_usage_percent recent_metrics)
                               / real (length recent_metrics);
                   latest = last recent_metrics
               in Inr (Some \<lparr>timestamp = timestamp latest,
                              cpu_usage_percent = avg_cpu,
                              memory_usage_percent = avg_memory,
                              memory_used_mb = memory_used_mb latest,
                              memory_total_mb = memory_total_mb latest,
                              cpu_cores = cpu_cores latest\<rparr>))))"

text \<open>
  The block \<^verbatim>\<open>if rrd_data: ...\<close> of \<^verbatim>\<open>MetricsCollector._collect_single_container_metrics\<close>:
  the most recent RRD point becomes a sample, which is appended to the ring buffer.
\<close>

definition collect_rrd_sample ::
  "ContainerMetrics \<Rightarrow> (string \<rightharpoonup> real) list \<Rightarrow> (string \<rightharpoonup> int) \<Rightarrow> real \<Rightarrow> ContainerMetrics" where
  "collect_rrd_sample container_metrics rrd_data config now =
     (if rrd_data \<noteq> [] then add_metrics container_metrics (from_rrd_data (last rrd_data) config now)
      else container_metrics)"

record NodeMetrics =
  node_name :: string
  cpu_usage_percent :: real
  memory_usage_percent :: real
  memory_used_gb :: real
  memory_total_gb :: real
  uptime :: int
  load_average :: "real list"

record ClusterMetrics =
  total_containers :: int
  running_containers :: int
  total_cpu_cores :: int
  total_memory_gb :: real
  avg_cpu_usage_percent :: real
  avg_memory_usage_percent :: real
  node_metrics :: "NodeMetrics list"
  container_metrics :: "ContainerMetrics list"

text \<open>The dictionary returned by \<^verbatim>\<open>get_resource_availability\<close> has exactly these two keys.\<close>

record ResourceAvailability =
  cpu_available_percent :: real
  memory_available_percent :: real

definition get_resource_availability :: "ClusterMetrics \<Rightarrow> ResourceAvailability" where
  "get_resource_availability self =
     (if node_metrics self = [] then
        \<lparr>cpu_available_percent = 0, memory_available_percent = 0\<rparr>
      else
        (let avg_cpu_available = 100 - avg_cpu_usage_percent self;
             avg_memory_available = 100 - avg_memory_usage_percent self
         in \<lparr>cpu_available_percent = max 0 avg_cpu_available,
             memory_available_percent = max 0 avg_memory_available\<rparr>))"

subsection \<open>config/models.py\<close>

record ScalingThresholds =
  cpu_scale_up :: real
  cpu_scale_down :: real
  memory_scale_up :: real
  memory_scale_down :: real

record ResourceLimits =
  min_cpu_cores :: int
  max_cpu_cores :: int
  min_memory_mb :: int
  max_memory_mb :: int
  cpu_step :: int
  memory_step_mb :: int

record ContainerConfig =
  vmid :: int
  enabled :: bool
  thresholds :: ScalingThresholds
  limits :: ResourceLimits
  cooldown_seconds :: int
  evaluation_periods :: int

record GlobalConfig =
  monitoring_interval :: int
  dry_run :: bool

record SafetyConfig =
  max_concurrent_operations :: int
  max_cpu_usage_threshold :: real
  max_memory_usage_threshold :: real
  emergency_scale_down_threshold :: real
  resource_check_interval :: int
  enable_host_protection :: bool

text \<open>\<^verbatim>\<open>SafetyConfig.__post_init__\<close> raises \<^verbatim>\<open>ValueError\<close> unless this holds.\<close>

definition SafetyConfig_post_init_ok :: "SafetyConfig \<Rightarrow> bool" where
  "SafetyConfig_post_init_ok self =
     (\<not> max_concurrent_operations self < 1
      \<and> (50 \<le> max_cpu_usage_threshold self \<and> max_cpu_usage_threshold self \<le> 100)
      \<and> (50 \<le> max_memory_usage_threshold self \<and> max_memory_usage_threshold self \<le> 100))"

record AutoscalerConfig =
  global_config :: GlobalConfig
  safety :: SafetyConfig
  containers :: "ContainerConfig list"

subsection \<open>scaling/models.py\<close>

datatype ScalingAction =
  SCALE_UP_CPU | SCALE_DOWN_CPU | SCALE_UP_MEMORY | SCALE_DOWN_MEMORY | NO_ACTION

text \<open>
  The members of the enumeration \<^verbatim>\<open>ScalingReason\<close>, as the source declares them. It has
  no member \<^verbatim>\<open>NO_ACTION\<close>.
\<close>

datatype ScalingReason =
  CPU_HIGH | CPU_LOW | MEMORY_HIGH | MEMORY_LOW | RESOURCE_LIMIT_REACHED
  | INSUFFICIENT_DATA | COOLDOWN_PERIOD | CONTAINER_NOT_RUNNING
  | SAFETY_THRESHOLD_EXCEEDED | DRY_RUN_MODE

record ScalingDecision =
  vmid :: int
  node :: string
  action :: ScalingAction
  reason :: ScalingReason
  current_cpu_cores :: int
  current_memory_mb :: int
  target_cpu_cores :: "int option"
  target_memory_mb :: "int option"
  current_cpu_usage :: "real option"
  current_memory_usage :: "real option"
  timestamp :: real

definition requires_scaling :: "ScalingDecision \<Rightarrow> bool" where
  "requires_scaling self = (action self \<noteq> NO_ACTION)"

record ScalingOperation =
  decision :: ScalingDecision
  started_at :: real
  completed_at :: "real option"
  success :: "bool option"
  error_message :: "string option"

definition is_completed :: "ScalingOperation \<Rightarrow> bool" where
  "is_completed self = (completed_at self \<noteq> None)"

definition is_successful :: "ScalingOperation \<Rightarrow> bool" where
  "is_successful self = (success self = Some True)"

definition complete_success :: "ScalingOperation \<Rightarrow> real \<Rightarrow> ScalingOperation" where
  "complete_success self now = self\<lparr>completed_at := Some now, success := Some True\<rparr>"

definition complete_failure :: "ScalingOperation \<Rightarrow> string \<Rightarrow> real \<Rightarrow> ScalingOperation" where
  "complete_failure self msg now =
     self\<lparr>completed_at := Some now, success := Some False, error_message := Some msg\<rparr>"

record ScalingHistory =
  vmid :: int
  last_scaling_time :: "real option"
  last_scaling_action :: "ScalingAction option"
  operation_count :: int
  success_count :: int
  failure_count :: int

text \<open>\<^verbatim>\<open>ScalingHistory(vmid=vmid)\<close>: the dataclass defaults.\<close>

definition new_ScalingHistory :: "int \<Rightarrow> ScalingHistory" where
  "new_ScalingHistory v =
     \<lparr>vmid = v, last_scaling_time = None, last_scaling_action = None,
      operation_count = 0, success_count = 0, failure_count = 0\<rparr>"

definition record_operation :: "ScalingHistory \<Rightarrow> ScalingOperation \<Rightarrow> ScalingHistory" where
  "record_operation self operation =
     (if \<not> is_completed operation then self
      else
        (let self1 = self\<lparr>last_scaling_time := completed_at operation,
                           last_scaling_action := Some (action (decision operation)),
                           operation_count := operation_count self + 1\<rparr>
         in if is_successful operation
            then self1\<lparr>success_count := success_count self1 + 1\<rparr>
            else self1\<lparr>failure_count := failure_count self1 + 1\<rparr>))"

definition is_in_cooldown :: "ScalingHistory \<Rightarrow> int \<Rightarrow> real \<Rightarrow> bool" where
  "is_in_cooldown self cooldown now =
     (case last_scaling_time self of
        None \<Rightarrow> False
      | Some t \<Rightarrow> (let time_since_last = now - t
                     in time_since_last < real_of_int cooldown))"

text \<open>Recording a list of operations one after the other.\<close>

definition record_operations :: "ScalingHistory \<Rightarrow> ScalingOperation list \<Rightarrow> ScalingHistory" where
  "record_operations self operations = foldl record_operation self operations"

subsection \<open>scaling/engine.py\<close>

text \<open>
  The state of a \<^verbatim>\<open>ScalingEngine\<close>: its two dictionaries, and the calls
  \<^verbatim>\<open>client.resize_container(node, vmid, cpu_cores, memory_mb)\<close> issued so far.
\<close>

record ScalingEngine =
  active_operations :: "int \<rightharpoonup> ScalingOperation"
  scaling_history :: "int \<rightharpoonup> ScalingHistory"
  resize_calls :: "(string \<times> int \<times> int \<times> int) list"

text \<open>The loop over \<^verbatim>\<open>cluster_metrics.node_metrics\<close> of \<^verbatim>\<open>_check_cluster_safety\<close>.\<close>

fun check_nodes :: "SafetyConfig \<Rightarrow> NodeMetrics list \<Rightarrow> bool" where
  "check_nodes s [] = True"
| "check_nodes s (n # ns) =
     (if NodeMetrics.cpu_usage_percent n > max_cpu_usage_threshold s then False
      else if NodeMetrics.memory_usage_percent n > max_memory_usage_threshold s then False
      else check_nodes s ns)"

definition check_cluster_safety :: "SafetyConfig \<Rightarrow> ClusterMetrics \<Rightarrow> bool" where
  "check_cluster_safety s cluster_metrics =
     (if \<not> enable_host_protection s then True
      else if \<not> check_nodes s (node_metrics cluster_metrics) then False
      else
        (let availability = get_resource_availability cluster_metrics
         in if cpu_available_percent availability < 10 then False
            else if memory_available_percent availability < 10 then False
            else True))"

text \<open>
  \<^verbatim>\<open>_make_scaling_decision\<close>. The last \<^verbatim>\<open>return\<close> of the source evaluates
  \<^verbatim>\<open>ScalingReason.NO_ACTION\<close>, which is not a member of the enumeration: the attribute
  lookup raises \<^verbatim>\<open>AttributeError\<close> before a decision is built.
\<close>

definition make_scaling_decision ::
  "ContainerConfig \<Rightarrow> ContainerMetrics \<Rightarrow> ResourceMetrics \<Rightarrow> real \<Rightarrow> error + ScalingDecision" where
  "make_scaling_decision container_config cm eval_metrics now =
     (let v = ContainerConfig.vmid container_config;
          th = thresholds container_config;
          lims = limits container_config;
          current_cpu = cpu_cores eval_metrics;
          current_memory = memory_total_mb eval_metrics;
          cpu_usage = ResourceMetrics.cpu_usage_percent eval_metrics;
          memory_usage = ResourceMetrics.memory_usage_percent eval_metrics;
          base = \<lparr>ScalingDecision.vmid = v, node = ContainerMetrics.node cm,
                  action = NO_ACTION, reason = RESOURCE_LIMIT_REACHED,
                  current_cpu_cores = current_cpu, current_memory_mb = current_memory,
                  target_cpu_cores = None, target_memory_mb = None,
                  current_cpu_usage = Some cpu_usage, current_memory_usage = Some memory_usage,
                  timestamp = now\<rparr>
      in if cpu_usage \<ge> cpu_scale_up th then
           (let target_cpu = min (current_cpu + cpu_step lims) (max_cpu_cores lims)
            in if target_cpu > current_cpu
               then Inr (base\<lparr>action := SCALE_UP_CPU, reason := CPU_HIGH,
                               target_cpu_cores := Some target_cpu\<rparr>)
               else Inr base)
         else if memory_usage \<ge> memory_scale_up th then
           (let target_memory = min (current_memory + memory_step_mb lims) (max_memory_mb lims)
            in if target_memory > current_memory
               then Inr (base\<lparr>action := SCALE_UP_MEMORY, reason := MEMORY_HIGH,
                               target_memory_mb := Some target_memory\<rparr>)
               else Inr base)
         else if cpu_usage \<le> cpu_scale_down th then
           (let target_cpu = max (current_cpu - cpu_step lims) (min_cpu_cores lims)
            in if target_cpu < current_cpu
               then Inr (base\<lparr>action := SCALE_DOWN_CPU, reason := CPU_LOW,
                               target_cpu_cores := Some target_cpu\<rparr>)
               else Inr base)
         else if memory_usage \<le> memory_scale_down th then
           (let target_memory = max (current_memory - memory_step_mb lims) (min_memory_mb lims)
            in if target_memory < current_memory
               then Inr (base\<lparr>action := SCALE_DOWN_MEMORY, reason := MEMORY_LOW,
                               target_memory_mb := Some target_memory\<rparr>)
               else Inr base)
         else Inl AttributeError)"

text \<open>
  The decision of a preflight short-circuit of \<^verbatim>\<open>_evaluate_container_scaling\<close>: no
  action, no target, no observed usage.
\<close>

definition no_action_decision ::
  "int \<Rightarrow> string \<Rightarrow> ScalingReason \<Rightarrow> int \<Rightarrow> int \<Rightarrow> real \<Rightarrow> ScalingDecision" where
  "no_action_decision v n r cores mem now =
     \<lparr>ScalingDecision.vmid = v, node = n, action = NO_ACTION, reason = r,
      current_cpu_cores = cores, current_memory_mb = mem,
      target_cpu_cores = None, target_memory_mb = None,
      current_cpu_usage = None, current_memory_usage = None,
      timestamp = now\<rparr>"

text \<open>\<^verbatim>\<open>self.scaling_history.get(vmid, ScalingHistory(vmid=vmid))\<close>.\<close>

definition get_history :: "ScalingEngine \<Rightarrow> int \<Rightarrow> ScalingHistory" where
  "get_history self v = (case scaling_history self v of Some h \<Rightarrow> h | None \<Rightarrow> new_ScalingHistory v)"

text \<open>
  \<^verbatim>\<open>_evaluate_container_scaling\<close>. \<open>tracked\<close> is the dictionary
  \<^verbatim>\<open>metrics_collector.container_metrics\<close>; \<^verbatim>\<open>get_container_metrics(vmid)\<close> is the lookup.
\<close>

definition evaluate_container_scaling ::
  "(int \<rightharpoonup> ContainerMetrics) \<Rightarrow> ScalingEngine \<Rightarrow> ContainerConfig \<Rightarrow> real
     \<Rightarrow> error + ScalingDecision" where
  "evaluate_container_scaling tracked self container_config now =
     (let v = ContainerConfig.vmid container_config
      in case tracked v of
           None \<Rightarrow> Inr (no_action_decision v ''unknown'' INSUFFICIENT_DATA 0 0 now)
         | Some cm \<Rightarrow>
             (let cur_cpu = (case current_metrics cm of Some m \<Rightarrow> cpu_cores m | None \<Rightarrow> 0);
                  cur_mem = (case current_metrics cm of Some m \<Rightarrow> memory_total_mb m | None \<Rightarrow> 0);
                  n = ContainerMetrics.node cm
              in if status cm \<noteq> ''running'' then
                   Inr (no_action_decision v n CONTAINER_NOT_RUNNING 0 0 now)
                 else if v \<in> dom (active_operations self) then
                   Inr (no_action_decision v n COOLDOWN_PERIOD cur_cpu cur_mem now)
                 else
                   (let history = get_history self v
                    in if is_in_cooldown history (cooldown_seconds container_config) now then
                         Inr (no_action_decision v n COOLDOWN_PERIOD cur_cpu cur_mem now)
                       else
                         (case get_average_metrics cm (evaluation_periods container_config) of
                            Inl e \<Rightarrow> Inl e
                          | Inr None \<Rightarrow>
                              Inr (no_action_decision v n INSUFFICIENT_DATA cur_cpu cur_mem now)
                          | Inr (Some eval_metrics) \<Rightarrow>
                              make_scaling_decision container_config cm eval_metrics now))))"

text \<open>\<^verbatim>\<open>_generate_scaling_decisions\<close>: the loop over \<^verbatim>\<open>config.containers\<close>; an exception
  ends it.\<close>

fun generate_scaling_decisions ::
  "(int \<rightharpoonup> ContainerMetrics) \<Rightarrow> ScalingEngine \<Rightarrow> ContainerConfig list \<Rightarrow> real
     \<Rightarrow> error + ScalingDecision list" where
  "generate_scaling_decisions tracked self [] now = Inr []"
| "generate_scaling_decisions tracked self (c # cs) now =
     (if \<not> enabled c then generate_scaling_decisions tracked self cs now
      else
        (case evaluate_container_scaling tracked self c now of
           Inl e \<Rightarrow> Inl e
         | Inr d \<Rightarrow>
             (case generate_scaling_decisions tracked self cs now of
                Inl e \<Rightarrow> Inl e
              | Inr ds \<Rightarrow> Inr (d # ds))))"

text \<open>
  The arguments \<^verbatim>\<open>_perform_scaling\<close> passes to \<^verbatim>\<open>client.resize_container\<close>.
\<close>

definition perform_scaling_call :: "ScalingDecision \<Rightarrow> string \<times> int \<times> int \<times> int" where
  "perform_scaling_call d =
     (let cpu = (case target_cpu_cores d of Some c \<Rightarrow> c | None \<Rightarrow> current_cpu_cores d);
          memory_mb = (case target_memory_mb d of Some m \<Rightarrow> m | None \<Rightarrow> current_memory_mb d)
      in (ScalingDecision.node d, ScalingDecision.vmid d, cpu, memory_mb))"

text \<open>
  \<^verbatim>\<open>_execute_scaling_decision\<close>, as the engine states it passes through. The result is
  the returned flag, the engine state on return, and the list of the engine states after
  each of its mutations, in order:
  \<^enum> the operation is registered in \<^verbatim>\<open>active_operations\<close> (before the semaphore is
    entered);
  \<^enum> \<^verbatim>\<open>resize_container\<close> is called;
  \<^enum> the operation is completed (it is the object held by \<^verbatim>\<open>active_operations\<close>) and
    recorded in the history;
  \<^enum> the \<^verbatim>\<open>finally\<close> block deletes the entry of \<^verbatim>\<open>active_operations\<close>.

  \<open>resize\<close> is the Gateway call, \<open>t_start\<close> and \<open>t_end\<close> the two clock readings.
  The callers of the source await each call before the next one, so the semaphore, which
  \<^verbatim>\<open>SafetyConfig.__post_init__\<close> gives at least one slot, is free when it is entered.
\<close>

definition execute_scaling_decision ::
  "AutoscalerConfig \<Rightarrow> (string \<times> int \<times> int \<times> int \<Rightarrow> string option) \<Rightarrow> real \<Rightarrow> real
     \<Rightarrow> ScalingEngine \<Rightarrow> ScalingDecision \<Rightarrow> bool \<times> ScalingEngine \<times> ScalingEngine list" where
  "execute_scaling_decision config resize t_start t_end self d =
     (if \<not> requires_scaling d then (True, self, [])
      else if dry_run (global_config config) then (True, self, [])
      else
        (let v = ScalingDecision.vmid d;
             operation = \<lparr>decision = d, started_at = t_start, completed_at = None,
                          success = None, error_message = None\<rparr>;
             s1 = self\<lparr>active_operations := (active_operations self)(v \<mapsto> operation)\<rparr>;
             call = perform_scaling_call d;
             s2 = s1\<lparr>resize_calls := resize_calls s1 @ [call]\<rparr>;
             outcome = resize call;
             completed = (case outcome of
                       None \<Rightarrow> complete_success operation t_end
                     | Some e \<Rightarrow> complete_failure operation (''Scaling operation failed: '' @ e) t_end);
             s3 = s2\<lparr>active_operations := (active_operations s2)(v \<mapsto> completed),
                     scaling_history :=
                       (scaling_history s2)(v \<mapsto> record_operation (get_history s2 v) completed)\<rparr>;
             s4 = s3\<lparr>active_operations := (active_operations s3)(v := None)\<rparr>
         in (outcome = None, s4, [s1, s2, s3, s4])))"

text \<open>
  The loop \<^verbatim>\<open>for decision in decisions\<close> of \<^verbatim>\<open>evaluate_and_scale\<close>: the executed
  decisions, the engine state after the loop, and the engine states passed through.
\<close>

fun execute_decisions ::
  "AutoscalerConfig \<Rightarrow> (string \<times> int \<times> int \<times> int \<Rightarrow> string option) \<Rightarrow> real
     \<Rightarrow> ScalingEngine \<Rightarrow> ScalingDecision list
     \<Rightarrow> ScalingDecision list \<times> ScalingEngine \<times> ScalingEngine list" where
  "execute_decisions config resize now self [] = ([], self, [])"
| "execute_decisions config resize now self (d # ds) =
     (if requires_scaling d then
        (case execute_scaling_decision config resize now now self d of
           (ok, self1, visited1) \<Rightarrow>
             (case execute_decisions config resize now self1 ds of
                (executed, self2, visited2) \<Rightarrow>
                  ((if ok then d # executed else executed), self2, visited1 @ visited2)))
      else
        (case execute_decisions config resize now self ds of
           (executed, self2, visited2) \<Rightarrow> (d # executed, self2, visited2)))"

text \<open>
  \<^verbatim>\<open>evaluate_and_scale\<close>, one tick. \<open>collected\<close> is what the awaited
  \<^verbatim>\<open>collect_all_metrics()\<close> gives (the cluster snapshot, or the exception it raised) and
  \<open>tracked\<close> the collector's dictionary of container metrics after it. Every clock
  reading of the tick is \<open>now\<close>. The result is the returned list of decisions (or the
  \<^verbatim>\<open>ScalingEngineError\<close> into which any exception is turned), the engine state after
  the tick, and all engine states of the tick in order, the first being the state it
  starts in.
\<close>

definition evaluate_and_scale ::
  "AutoscalerConfig \<Rightarrow> error + ClusterMetrics \<Rightarrow> (int \<rightharpoonup> ContainerMetrics)
     \<Rightarrow> (string \<times> int \<times> int \<times> int \<Rightarrow> string option) \<Rightarrow> real \<Rightarrow> ScalingEngine
     \<Rightarrow> (error + ScalingDecision list) \<times> ScalingEngine \<times> ScalingEngine list" where
  "evaluate_and_scale config collected tracked resize now self =
     (case collected of
        Inl e \<Rightarrow> (Inl ScalingEngineError, self, [self])
      | Inr cluster_metrics \<Rightarrow>
          if \<not> check_cluster_safety (safety config) cluster_metrics then (Inr [], self, [self])
          else
            (case generate_scaling_decisions tracked self (containers config) now of
               Inl e \<Rightarrow> (Inl ScalingEngineError, self, [self])
             | Inr decisions \<Rightarrow>
                 (case execute_decisions config resize now self decisions of
                    (executed_decisions, self1, visited) \<Rightarrow>
                      (Inr executed_decisions, self1, self # visited))))"

text \<open>\<^verbatim>\<open>ScalingEngine.__init__\<close>: both dictionaries empty, nothing sent to the Gateway.\<close>

definition init_ScalingEngine :: ScalingEngine where
  "init_ScalingEngine =
     \<lparr>active_operations = Map.empty, scaling_history = Map.empty, resize_calls = []\<rparr>"

subsection \<open>Notions of the specification\<close>

text \<open>Appending a list of samples to a ring buffer, one after the other.\<close>

definition add_all_metrics :: "ContainerMetrics \<Rightarrow> ResourceMetrics list \<Rightarrow> ContainerMetrics" where
  "add_all_metrics self samples = foldl add_metrics self samples"

text \<open>The last \<open>n\<close> elements of a list, and the arithmetic mean of a list of numbers.\<close>

definition last_n :: "nat \<Rightarrow> 'a list \<Rightarrow> 'a list" where
  "last_n n xs = rev (take n (rev xs))"

definition arithmetic_mean :: "real list \<Rightarrow> real" where
  "arithmetic_mean xs = sum_list xs / real (length xs)"

text \<open>What a decision decides: action, reason, target cores, target memory.\<close>

definition decision_outcome ::
  "ScalingDecision \<Rightarrow> ScalingAction \<times> ScalingReason \<times> int option \<times> int option" where
  "decision_outcome d = (action d, reason d, target_cpu_cores d, target_memory_mb d)"

text \<open>
  The four threshold rules of the specification, in its priority order; when a rule
  matches the averaged sample, and the outcome it proposes. The first rule of the list
  that matches wins.
\<close>

datatype threshold_rule = CpuUp | MemoryUp | CpuDown | MemoryDown

definition priority_order :: "threshold_rule list" where
  "priority_order = [CpuUp, MemoryUp, CpuDown, MemoryDown]"

fun rule_matches :: "ScalingThresholds \<Rightarrow> ResourceMetrics \<Rightarrow> threshold_rule \<Rightarrow> bool" where
  "rule_matches th m CpuUp = (ResourceMetrics.cpu_usage_percent m \<ge> cpu_scale_up th)"
| "rule_matches th m MemoryUp = (ResourceMetrics.memory_usage_percent m \<ge> memory_scale_up th)"
| "rule_matches th m CpuDown = (ResourceMetrics.cpu_usage_percent m \<le> cpu_scale_down th)"
| "rule_matches th m MemoryDown = (ResourceMetrics.memory_usage_percent m \<le> memory_scale_down th)"

fun rule_outcome ::
  "ResourceLimits \<Rightarrow> ResourceMetrics \<Rightarrow> threshold_rule
     \<Rightarrow> ScalingAction \<times> ScalingReason \<times> int option \<times> int option" where
  "rule_outcome lims m CpuUp =
     (let target = min (cpu_cores m + cpu_step lims) (max_cpu_cores lims)
      in if target > cpu_cores m then (SCALE_UP_CPU, CPU_HIGH, Some target, None)
         else (NO_ACTION, RESOURCE_LIMIT_REACHED, None, None))"
| "rule_outcome lims m MemoryUp =
     (let target = min (memory_total_mb m + memory_step_mb lims) (max_memory_mb lims)
      in if target > memory_total_mb m then (SCALE_UP_MEMORY, MEMORY_HIGH, None, Some target)
         else (NO_ACTION, RESOURCE_LIMIT_REACHED, None, None))"
| "rule_outcome lims m CpuDown =
     (let target = max (cpu_cores m - cpu_step lims) (min_cpu_cores lims)
      in if target < cpu_cores m then (SCALE_DOWN_CPU, CPU_LOW, Some target, None)
         else (NO_ACTION, RESOURCE_LIMIT_REACHED, None, None))"
| "rule_outcome lims m MemoryDown =
     (let target = max (memory_total_mb m - memory_step_mb lims) (min_memory_mb lims)
      in if target < memory_total_mb m then (SCALE_DOWN_MEMORY, MEMORY_LOW, None, Some target)
         else (NO_ACTION, RESOURCE_LIMIT_REACHED, None, None))"

definition first_matching_rule :: "ScalingThresholds \<Rightarrow> ResourceMetrics \<Rightarrow> threshold_rule option" where
  "first_matching_rule th m = List.find (rule_matches th m) priority_order"

text \<open>The shape invariant of the specification on decisions.\<close>

definition decision_shape_ok :: "ScalingDecision \<Rightarrow> bool" where
  "decision_shape_ok d =
     ((action d = NO_ACTION \<longrightarrow> target_cpu_cores d = None \<and> target_memory_mb d = None)
      \<and> (action d \<noteq> NO_ACTION \<longrightarrow> (target_cpu_cores d = None) \<noteq> (target_memory_mb d = None))
      \<and> (action d = SCALE_UP_CPU \<or> action d = SCALE_DOWN_CPU
           \<longrightarrow> target_cpu_cores d \<noteq> None \<and> target_memory_mb d = None)
      \<and> (action d = SCALE_UP_MEMORY \<or> action d = SCALE_DOWN_MEMORY
           \<longrightarrow> target_memory_mb d \<noteq> None \<and> target_cpu_cores d = None))"

text \<open>When the cluster-safety gate is closed, in the words of the specification.\<close>

definition gate_closed :: "SafetyConfig \<Rightarrow> ClusterMetrics \<Rightarrow> bool" where
  "gate_closed s cluster_metrics =
     ((\<exists>n \<in> set (node_metrics cluster_metrics).
          NodeMetrics.cpu_usage_percent n > max_cpu_usage_threshold s
          \<or> NodeMetrics.memory_usage_percent n > max_memory_usage_threshold s)
      \<or> cpu_available_percent (get_resource_availability cluster_metrics) < 10
      \<or> memory_available_percent (get_resource_availability cluster_metrics) < 10)"

subsection \<open>Concrete inputs\<close>

text \<open>
  The policy of the scenarios of the specification: thresholds 80/30 for CPU and 85/40
  for memory, one to four cores in steps of one, evaluation over three samples, a
  cooldown of 300 seconds.
\<close>

definition example_sample :: "real \<Rightarrow> real \<Rightarrow> real \<Rightarrow> int \<Rightarrow> ResourceMetrics" where
  "example_sample t cpu mem cores =
     \<lparr>ResourceMetrics.timestamp = t, ResourceMetrics.cpu_usage_percent = cpu,
      ResourceMetrics.memory_usage_percent = mem,
      memory_used_mb = 1024, memory_total_mb = 2048, cpu_cores = cores\<rparr>"

definition example_container :: "ResourceMetrics list \<Rightarrow> ContainerMetrics" where
  "example_container samples =
     \<lparr>ContainerMetrics.vmid = 101, ContainerMetrics.node = ''pve1'', name = ''ct-101'',
      status = ''running'', ContainerMetrics.uptime = 1000,
      current_metrics = (if samples = [] then None else Some (last samples)),
      historical_metrics = samples\<rparr>"

definition rrd_point_at :: "real \<Rightarrow> (string \<rightharpoonup> real)" where
  "rrd_point_at t =
     [''time'' \<mapsto> t, ''cpu'' \<mapsto> 0.5, ''mem'' \<mapsto> 1073741824, ''maxmem'' \<mapsto> 2147483648]"

definition example_ct_config :: "string \<rightharpoonup> int" where
  "example_ct_config = [''cores'' \<mapsto> 2]"

definition example_container_config :: ContainerConfig where
  "example_container_config =
     \<lparr>ContainerConfig.vmid = 101, enabled = True,
      thresholds = \<lparr>cpu_scale_up = 80, cpu_scale_down = 30,
                    memory_scale_up = 85, memory_scale_down = 40\<rparr>,
      limits = \<lparr>min_cpu_cores = 1, max_cpu_cores = 4, min_memory_mb = 512,
                max_memory_mb = 8192, cpu_step = 1, memory_step_mb = 256\<rparr>,
      cooldown_seconds = 300, evaluation_periods = 3\<rparr>"

definition example_safety :: SafetyConfig where
  "example_safety =
     \<lparr>max_concurrent_operations = 3, max_cpu_usage_threshold = 95,
      max_memory_usage_threshold = 95, emergency_scale_down_threshold = 98,
      resource_check_interval = 30, enable_host_protection = True\<rparr>"

definition example_config :: AutoscalerConfig where
  "example_config =
     \<lparr>global_config = \<lparr>monitoring_interval = 60, dry_run = False\<rparr>,
      safety = example_safety,
      containers = [example_container_config]\<rparr>"

definition example_node :: "real \<Rightarrow> real \<Rightarrow> NodeMetrics" where
  "example_node cpu mem =
     \<lparr>node_name = ''pve1'', NodeMetrics.cpu_usage_percent = cpu,
      NodeMetrics.memory_usage_percent = mem, memory_used_gb = 16, memory_total_gb = 64,
      NodeMetrics.uptime = 1000, load_average = [1, 1, 1]\<rparr>"

text \<open>A cluster snapshot built the way \<^verbatim>\<open>_build_cluster_metrics\<close> averages its nodes.\<close>

definition example_cluster :: "NodeMetrics list \<Rightarrow> ClusterMetrics" where
  "example_cluster nodes =
     \<lparr>total_containers = 1, running_containers = 1,
      total_cpu_cores = (if nodes = [] then 0 else 3 * int (length nodes)),
      total_memory_gb = sum_list (map memory_total_gb nodes),
      avg_cpu_usage_percent =
        (if nodes = [] then 0
         else sum_list (map NodeMetrics.cpu_usage_percent nodes) / real (length nodes)),
      avg_memory_usage_percent =
        (if nodes = [] then 0
         else sum_list (map NodeMetrics.memory_usage_percent nodes) / real (length nodes)),
      node_metrics = nodes, container_metrics = []\<rparr>"

text \<open>A Gateway whose every resize call returns.\<close>

definition resize_ok :: "string \<times> int \<times> int \<times> int \<Rightarrow> string option" where
  "resize_ok call = None"

text \<open>The decision of scenario S1 and an operation that applies it.\<close>

definition example_decision :: ScalingDecision where
  "example_decision =
     \<lparr>ScalingDecision.vmid = 101, ScalingDecision.node = ''pve1'',
      action = SCALE_UP_CPU, reason = CPU_HIGH,
      current_cpu_cores = 2, current_memory_mb = 2048,
      target_cpu_cores = Some 3, target_memory_mb = None,
      current_cpu_usage = Some (250 / 3), current_memory_usage = Some 20,
      ScalingDecision.timestamp = 1000\<rparr>"

definition example_operation :: ScalingOperation where
  "example_operation =
     \<lparr>decision = example_decision, started_at = 1000, completed_at = None,
      success = None, error_message = None\<rparr>"

text \<open>The three samples of scenario S1, tracked for container 101.\<close>

definition example_samples :: "ResourceMetrics list" where
  "example_samples =
     [example_sample 1 82 20 2, example_sample 2 85 20 2, example_sample 3 83 20 2]"

definition example_tracked :: "int \<rightharpoonup> ContainerMetrics" where
  "example_tracked = [101 \<mapsto> example_container example_samples]"

text \<open>Three samples in the normal band (50 percent CPU, 60 percent memory), tracked for
  container 101: no threshold of the policy matches their average.\<close>

definition example_idle_samples :: "ResourceMetrics list" where
  "example_idle_samples =
     [example_sample 1 50 60 2, example_sample 2 50 60 2, example_sample 3 50 60 2]"

definition example_idle_tracked :: "int \<rightharpoonup> ContainerMetrics" where
  "example_idle_tracked = [101 \<mapsto> example_container example_idle_samples]"

subsection \<open>The engine states of a run\<close>

text \<open>
  The daemon's main loop awaits one \<^verbatim>\<open>evaluate_and_scale()\<close> after the other on the
  engine built by \<^verbatim>\<open>ScalingEngine.__init__\<close>. The engine states between ticks are the
  initial one and the state after a tick started in such a state, whatever the
  configuration, the collected metrics, the Gateway and the clock of that tick are.
\<close>

inductive engine_between_ticks :: "ScalingEngine \<Rightarrow> bool" where
  initial: "engine_between_ticks init_ScalingEngine"
| after_tick:
    "engine_between_ticks self \<Longrightarrow>
     fst (snd (evaluate_and_scale config collected tracked resize now self)) = self' \<Longrightarrow>
     engine_between_ticks self'"

section \<open>Properties\<close>

subsection \<open>The ring buffer of samples\<close>

lemma historical_add_metrics:
  "historical_metrics (add_metrics cm m) =
     drop (Suc (length (historical_metrics cm)) - 100) (historical_metrics cm @ [m])"
  by (simp add: add_metrics_def Let_def slice_last_def)

lemma length_historical_add_metrics:
  "length (historical_metrics (add_metrics cm m)) = min (Suc (length (historical_metrics cm))) 100"
  by (simp add: historical_add_metrics)

lemma foldl_add_metrics_general:
  "length (historical_metrics cm) \<le> 100 \<Longrightarrow>
   historical_metrics (foldl add_metrics cm xs) =
     drop (length (historical_metrics cm) + length xs - 100) (historical_metrics cm @ xs)"
proof (induction xs arbitrary: cm)
  case Nil
  then show ?case by simp
next
  case (Cons x xs)
  let ?h = "historical_metrics cm"
  have len: "length (historical_metrics (add_metrics cm x)) \<le> 100"
    by (simp add: length_historical_add_metrics)
  have "historical_metrics (foldl add_metrics cm (x # xs)) =
        historical_metrics (foldl add_metrics (add_metrics cm x) xs)" by simp
  also have "\<dots> = drop (length (historical_metrics (add_metrics cm x)) + length xs - 100)
                     (historical_metrics (add_metrics cm x) @ xs)"
    using Cons.IH [OF len] .
  also have "\<dots> = drop (length ?h + length (x # xs) - 100) (?h @ x # xs)"
  proof (cases "length ?h < 100")
    case True
    then show ?thesis by (simp add: historical_add_metrics)
  next
    case False
    with Cons.prems have "length ?h = 100" by simp
    then show ?thesis by (simp add: historical_add_metrics)
  qed
  finally show ?case .
qed

lemma last_n_drop: "last_n n xs = drop (length xs - n) xs"
  by (simp add: last_n_def take_rev)

text \<open>
  C9. Appending a sample keeps the buffer at no more than 100 samples, and after any
  sequence of appends the buffer is the last \<open>min total 100\<close> samples, in the order
  in which they were appended, where \<open>total\<close> counts the samples the buffer held and
  the appended ones: the oldest samples are the ones evicted.
\<close>

theorem add_metrics_ring_buffer:
  "length (historical_metrics cm) \<le> 100 \<longrightarrow>
     length (historical_metrics (add_metrics cm m)) \<le> 100
     \<and> historical_metrics (add_all_metrics cm xs)
         = last_n (min (length (historical_metrics cm @ xs)) 100) (historical_metrics cm @ xs)
     \<and> length (historical_metrics (add_all_metrics cm xs))
         = min (length (historical_metrics cm @ xs)) 100"
proof
  assume le: "length (historical_metrics cm) \<le> 100"
  let ?all = "historical_metrics cm @ xs"
  have one: "length (historical_metrics (add_metrics cm m)) \<le> 100"
    by (simp add: length_historical_add_metrics)
  have "historical_metrics (add_all_metrics cm xs) = drop (length ?all - 100) ?all"
    using foldl_add_metrics_general [OF le, of xs] by (simp add: add_all_metrics_def)
  moreover have "length ?all - min (length ?all) 100 = length ?all - 100" by simp
  then have "last_n (min (length ?all) 100) ?all = drop (length ?all - 100) ?all"
    by (simp only: last_n_def take_rev rev_rev_ident)
  ultimately have all: "historical_metrics (add_all_metrics cm xs)
      = last_n (min (length ?all) 100) ?all" by simp
  have "length (last_n (min (length ?all) 100) ?all) = min (length ?all) 100"
    by (simp add: last_n_def)
  with one all show "length (historical_metrics (add_metrics cm m)) \<le> 100
     \<and> historical_metrics (add_all_metrics cm xs) = last_n (min (length ?all) 100) ?all
     \<and> length (historical_metrics (add_all_metrics cm xs)) = min (length ?all) 100"
    by simp
qed

text \<open>A buffer of 99 samples to which three are appended: the two oldest are evicted and
  the three appended ones are its last three.\<close>

theorem add_metrics_ring_buffer_witness:
  "length (historical_metrics (example_container (replicate 99 (example_sample 0 50 50 2)))) \<le> 100
   \<and> historical_metrics (add_all_metrics
         (example_container (replicate 99 (example_sample 0 50 50 2)))
         [example_sample 1 50 50 2, example_sample 2 60 50 2, example_sample 3 70 50 2])
       = replicate 97 (example_sample 0 50 50 2)
         @ [example_sample 1 50 50 2, example_sample 2 60 50 2, example_sample 3 70 50 2]
   \<and> length (historical_metrics (add_all_metrics
         (example_container (replicate 99 (example_sample 0 50 50 2)))
         [example_sample 1 50 50 2, example_sample 2 60 50 2, example_sample 3 70 50 2])) = 100"
proof -
  have h: "historical_metrics (example_container (replicate 99 (example_sample 0 50 50 2)))
             = replicate 99 (example_sample 0 50 50 2)"
    by (simp add: example_container_def)
  have l: "length (historical_metrics (example_container (replicate 99 (example_sample 0 50 50 2))))
             \<le> 100"
    by (simp add: h)
  have d: "drop 2 (replicate 99 (example_sample 0 50 50 2)) = replicate 97 (example_sample 0 50 50 2)"
    by simp
  from add_metrics_ring_buffer
         [of "example_container (replicate 99 (example_sample 0 50 50 2))" "example_sample 1 50 50 2"
             "[example_sample 1 50 50 2, example_sample 2 60 50 2, example_sample 3 70 50 2]"] l
  show ?thesis by (simp add: h last_n_drop d)
qed

lemma sorted_add_metrics:
  assumes "sorted (map ResourceMetrics.timestamp (historical_metrics cm))"
    and "historical_metrics cm \<noteq> [] \<Longrightarrow>
           ResourceMetrics.timestamp (last (historical_metrics cm)) \<le> ResourceMetrics.timestamp m"
  shows "sorted (map ResourceMetrics.timestamp (historical_metrics (add_metrics cm m)))"
proof -
  let ?h = "historical_metrics cm"
  have "\<forall>x \<in> set ?h. ResourceMetrics.timestamp x \<le> ResourceMetrics.timestamp m"
  proof
    fix x assume x: "x \<in> set ?h"
    then have ne: "?h \<noteq> []" by auto
    from x obtain i where i: "i < length ?h" "?h ! i = x" by (auto simp: in_set_conv_nth)
    have "map ResourceMetrics.timestamp ?h ! i \<le> map ResourceMetrics.timestamp ?h ! (length ?h - 1)"
      using assms(1) i(1) by (intro sorted_nth_mono) auto
    then have "ResourceMetrics.timestamp x \<le> ResourceMetrics.timestamp (last ?h)"
      using i ne by (simp add: last_conv_nth)
    with assms(2) [OF ne] show "ResourceMetrics.timestamp x \<le> ResourceMetrics.timestamp m" by simp
  qed
  with assms(1) have "sorted (map ResourceMetrics.timestamp (?h @ [m]))"
    by (simp add: sorted_append)
  then have "sorted (drop (Suc (length ?h) - 100) (map ResourceMetrics.timestamp (?h @ [m])))"
    by (rule sorted_wrt_drop)
  then show ?thesis by (simp add: historical_add_metrics drop_map)
qed

lemma timestamp_from_rrd_data:
  "ResourceMetrics.timestamp (from_rrd_data (rrd_point_at t) c now) = t"
  by (simp add: from_rrd_data_def rrd_point_at_def Let_def)

text \<open>
  C8, as stated, fails: \<^verbatim>\<open>add_metrics\<close> appends whatever sample it is given, and the
  timestamp of a collected sample is the \<^verbatim>\<open>time\<close> entry of the RRD point the cluster
  returned. Two collections whose latest RRD points carry the times 1700000060 and then
  1700000000 leave a buffer whose timestamps decrease.
\<close>

theorem ring_buffer_timestamps_counterexample:
  "\<not> sorted (map ResourceMetrics.timestamp (historical_metrics
        (collect_rrd_sample
           (collect_rrd_sample (example_container [])
              [rrd_point_at 1700000060] example_ct_config 1700000061)
           [rrd_point_at 1700000000] example_ct_config 1700000121)))"
  by (simp add: collect_rrd_sample_def historical_add_metrics example_container_def
        timestamp_from_rrd_data)

text \<open>
  C8, amended. The buffer keeps the order of appending: when its samples are
  non-decreasing in timestamp and the appended sample's timestamp is greater than or
  equal to that of the sample before it, the buffer after the append is non-decreasing in
  timestamp.
\<close>

theorem add_metrics_keeps_timestamp_order:
  assumes "sorted (map ResourceMetrics.timestamp (historical_metrics cm))"
    and "historical_metrics cm \<noteq> [] \<longrightarrow>
           ResourceMetrics.timestamp (last (historical_metrics cm)) \<le> ResourceMetrics.timestamp m"
  shows "sorted (map ResourceMetrics.timestamp (historical_metrics (add_metrics cm m)))"
  using assms by (intro sorted_add_metrics) auto

theorem add_metrics_keeps_timestamp_order_witness:
  "sorted (map ResourceMetrics.timestamp
     (historical_metrics (example_container [example_sample 1 50 50 2])))
   \<and> ResourceMetrics.timestamp
          (last (historical_metrics (example_container [example_sample 1 50 50 2])))
          \<le> ResourceMetrics.timestamp (example_sample 2 60 50 2)
   \<and> sorted (map ResourceMetrics.timestamp
        (historical_metrics
           (add_metrics (example_container [example_sample 1 50 50 2]) (example_sample 2 60 50 2))))"
proof -
  have a: "sorted (map ResourceMetrics.timestamp
             (historical_metrics (example_container [example_sample 1 50 50 2])))"
    by (simp add: example_container_def)
  have b: "ResourceMetrics.timestamp
          (last (historical_metrics (example_container [example_sample 1 50 50 2])))
          \<le> ResourceMetrics.timestamp (example_sample 2 60 50 2)"
    by (simp add: example_container_def example_sample_def)
  from add_metrics_keeps_timestamp_order [OF a] a b show ?thesis by blast
qed

subsection \<open>The average view\<close>

lemma slice_last_is_last_n: "0 < n \<Longrightarrow> slice_last n xs = last_n (nat n) xs"
  by (simp add: slice_last_def last_n_drop)

text \<open>
  C4. For \<open>N \<ge> 1\<close> the average view is null when fewer than \<open>N\<close> samples are
  buffered. Otherwise it is a sample whose CPU and memory percentages are the arithmetic
  means over the last \<open>N\<close> buffered samples (there are exactly \<open>N\<close> of them) and whose
  cores, used memory, total memory and timestamp are those of the most recent buffered
  sample.
\<close>

theorem get_average_metrics_view:
  assumes "1 \<le> N"
  shows "(int (length (historical_metrics cm)) < N \<longrightarrow> get_average_metrics cm N = Inr None)
       \<and> (N \<le> int (length (historical_metrics cm)) \<longrightarrow>
            get_average_metrics cm N =
              Inr (Some \<lparr>ResourceMetrics.timestamp =
                            ResourceMetrics.timestamp (last (historical_metrics cm)),
                          ResourceMetrics.cpu_usage_percent =
                            arithmetic_mean (map ResourceMetrics.cpu_usage_percent
                                               (last_n (nat N) (historical_metrics cm))),
                          ResourceMetrics.memory_usage_percent =
                            arithmetic_mean (map ResourceMetrics.memory_usage_percent
                                               (last_n (nat N) (historical_metrics cm))),
                          memory_used_mb = memory_used_mb (last (historical_metrics cm)),
                          memory_total_mb = memory_total_mb (last (historical_metrics cm)),
                          cpu_cores = cpu_cores (last (historical_metrics cm))\<rparr>)
            \<and> length (last_n (nat N) (historical_metrics cm)) = nat N)"
proof (intro conjI impI)
  assume "int (length (historical_metrics cm)) < N"
  then show "get_average_metrics cm N = Inr None" by (simp add: get_average_metrics_def)
next
  assume le: "N \<le> int (length (historical_metrics cm))"
  let ?h = "historical_metrics cm"
  let ?r = "last_n (nat N) ?h"
  have sl: "slice_last N ?h = ?r" using assms by (simp add: slice_last_is_last_n)
  have len: "length ?r = nat N" using le assms by (simp add: last_n_drop)
  then show "length ?r = nat N" .
  have ne: "?r \<noteq> []" using len assms by auto
  have lst: "last ?r = last ?h" using le assms by (simp add: last_n_drop last_drop)
  show "get_average_metrics cm N =
              Inr (Some \<lparr>ResourceMetrics.timestamp =
                            ResourceMetrics.timestamp (last (historical_metrics cm)),
                          ResourceMetrics.cpu_usage_percent =
                            arithmetic_mean (map ResourceMetrics.cpu_usage_percent
                                               (last_n (nat N) (historical_metrics cm))),
                          ResourceMetrics.memory_usage_percent =
                            arithmetic_mean (map ResourceMetrics.memory_usage_percent
                                               (last_n (nat N) (historical_metrics cm))),
                          memory_used_mb = memory_used_mb (last (historical_metrics cm)),
                          memory_total_mb = memory_total_mb (last (historical_metrics cm)),
                          cpu_cores = cpu_cores (last (historical_metrics cm))\<rparr>)"
    using le ne lst by (simp add: get_average_metrics_def sl Let_def arithmetic_mean_def)
qed

text \<open>Two samples with \<open>N = 3\<close> give null; the samples 82, 85, 83 of scenario S1 average
  to 250/3 with the cores of the latest one.\<close>

theorem get_average_metrics_view_witness:
  "(1::int) \<le> 3
   \<and> get_average_metrics (example_container [example_sample 1 82 20 2, example_sample 2 85 20 2]) 3
       = Inr None
   \<and> get_average_metrics
        (example_container [example_sample 1 82 20 2, example_sample 2 85 20 2,
                            example_sample 3 83 20 2]) 3
       = Inr (Some (example_sample 3 (250 / 3) 20 2))"
proof -
  have h: "(1::int) \<le> 3" by simp
  show ?thesis
    using get_average_metrics_view [OF h,
            of "example_container [example_sample 1 82 20 2, example_sample 2 85 20 2]"]
      get_average_metrics_view [OF h,
            of "example_container [example_sample 1 82 20 2, example_sample 2 85 20 2,
                                   example_sample 3 83 20 2]"]
    by (simp add: example_container_def example_sample_def last_n_def arithmetic_mean_def)
qed

subsection \<open>The scaling history\<close>

lemma record_operation_not_completed:
  "\<not> is_completed operation \<Longrightarrow> record_operation h operation = h"
  by (simp add: record_operation_def)

lemma record_operation_completed:
  "is_completed operation \<Longrightarrow>
     operation_count (record_operation h operation) = operation_count h + 1
   \<and> last_scaling_time (record_operation h operation) = completed_at operation
   \<and> success_count (record_operation h operation)
       = success_count h + (if is_successful operation then 1 else 0)
   \<and> failure_count (record_operation h operation)
       = failure_count h + (if is_successful operation then 0 else 1)"
  by (simp add: record_operation_def Let_def)

lemma record_operations_totals:
  "\<forall>operation \<in> set ops. is_completed operation \<Longrightarrow>
     operation_count (record_operations h ops) = operation_count h + int (length ops)
   \<and> success_count (record_operations h ops) + failure_count (record_operations h ops)
       = success_count h + failure_count h + int (length ops)"
proof (induction ops arbitrary: h)
  case Nil
  then show ?case by (simp add: record_operations_def)
next
  case (Cons a ops)
  then have a: "is_completed a" and rest: "\<forall>operation \<in> set ops. is_completed operation"
    by auto
  have step: "record_operations h (a # ops) = record_operations (record_operation h a) ops"
    by (simp add: record_operations_def)
  show ?case
    unfolding step
    using Cons.IH [OF rest, of "record_operation h a"] record_operation_completed [OF a, of h]
    by (simp split: if_splits)
qed

text \<open>
  C6. Recording an operation that is not completed leaves the history as it is.
  Recording a completed one adds one to \<open>operation_count\<close>, sets \<open>last_scaling_time\<close> to
  its \<open>completed_at\<close>, and adds one to exactly one of \<open>success_count\<close> and
  \<open>failure_count\<close>, by its success flag. After recording \<open>N\<close> completed operations into
  the empty history, \<open>operation_count = N\<close> and \<open>success_count + failure_count = N\<close>.
\<close>

theorem record_operation_counts:
  "(\<not> is_completed operation \<longrightarrow> record_operation h operation = h)
   \<and> (is_completed operation \<longrightarrow>
        operation_count (record_operation h operation) = operation_count h + 1
      \<and> last_scaling_time (record_operation h operation) = completed_at operation
      \<and> (if is_successful operation
         then success_count (record_operation h operation) = success_count h + 1
            \<and> failure_count (record_operation h operation) = failure_count h
         else success_count (record_operation h operation) = success_count h
            \<and> failure_count (record_operation h operation) = failure_count h + 1))
   \<and> ((\<forall>x \<in> set ops. is_completed x) \<longrightarrow>
        operation_count (record_operations (new_ScalingHistory v) ops) = int (length ops)
      \<and> success_count (record_operations (new_ScalingHistory v) ops)
          + failure_count (record_operations (new_ScalingHistory v) ops) = int (length ops))"
  using record_operation_not_completed [of operation h]
    record_operation_completed [of operation h]
    record_operations_totals [of ops "new_ScalingHistory v"]
  by (simp add: new_ScalingHistory_def split: if_splits)

text \<open>An operation in flight is not recorded; one success and one failure are counted
  as two operations, one of each kind, the last completed at time 1005.\<close>

theorem record_operation_counts_witness:
  "\<not> is_completed example_operation
   \<and> record_operation (new_ScalingHistory 101) example_operation = new_ScalingHistory 101
   \<and> is_completed (complete_success example_operation 1002)
   \<and> is_completed (complete_failure example_operation ''timeout'' 1005)
   \<and> record_operations (new_ScalingHistory 101)
        [complete_success example_operation 1002,
         complete_failure example_operation ''timeout'' 1005]
      = \<lparr>ScalingHistory.vmid = 101, last_scaling_time = Some 1005,
         last_scaling_action = Some SCALE_UP_CPU,
         operation_count = 2, success_count = 1, failure_count = 1\<rparr>"
  using record_operation_counts [of example_operation "new_ScalingHistory 101"
          "[complete_success example_operation 1002,
            complete_failure example_operation ''timeout'' 1005]" 101]
    record_operation_counts [of "complete_success example_operation 1002"
          "new_ScalingHistory 101" "[]" 101]
  by (simp add: example_operation_def example_decision_def complete_success_def
        complete_failure_def is_completed_def is_successful_def record_operations_def
        record_operation_def new_ScalingHistory_def Let_def)

subsection \<open>The cluster-safety gate\<close>

lemma check_nodes_iff:
  "check_nodes s ns =
     (\<not> (\<exists>n \<in> set ns. NodeMetrics.cpu_usage_percent n > max_cpu_usage_threshold s
                      \<or> NodeMetrics.memory_usage_percent n > max_memory_usage_threshold s))"
  by (induction ns) auto

lemma check_cluster_safety_iff:
  "check_cluster_safety s cm = (\<not> enable_host_protection s \<or> \<not> gate_closed s cm)"
  by (auto simp: check_cluster_safety_def gate_closed_def check_nodes_iff Let_def)

lemma evaluate_and_scale_gate_closed:
  "\<not> check_cluster_safety (safety config) cm \<Longrightarrow>
     evaluate_and_scale config (Inr cm) tracked resize now self = (Inr [], self, [self])"
  by (simp add: evaluate_and_scale_def)

text \<open>
  C2. With host protection enabled the gate is closed exactly when some node reports a
  CPU percentage above \<open>max_cpu_usage_threshold\<close> or a memory percentage above
  \<open>max_memory_usage_threshold\<close>, or the available CPU or memory percentage of the
  cluster is below 10. When the gate is closed the tick returns the empty list of
  decisions and leaves the engine as it was: no container is evaluated, nothing is
  registered, no resize is issued. With host protection disabled the gate is open.
\<close>

theorem cluster_safety_gate:
  "(enable_host_protection (safety config) \<longrightarrow>
      (\<not> check_cluster_safety (safety config) cm) = gate_closed (safety config) cm)
   \<and> (\<not> check_cluster_safety (safety config) cm \<longrightarrow>
        evaluate_and_scale config (Inr cm) tracked resize now self = (Inr [], self, [self]))
   \<and> (\<not> enable_host_protection (safety config) \<longrightarrow> check_cluster_safety (safety config) cm)"
  using check_cluster_safety_iff [of "safety config" cm]
    evaluate_and_scale_gate_closed [of config cm tracked resize now self]
  by blast

lemma example_gate_97: "gate_closed example_safety (example_cluster [example_node 97 40])"
  by (simp add: gate_closed_def example_safety_def example_cluster_def example_node_def)

text \<open>Scenario S5: one node at 97 percent CPU with the limit at 95.\<close>

theorem cluster_safety_gate_witness:
  "enable_host_protection (safety example_config)
   \<and> gate_closed (safety example_config) (example_cluster [example_node 97 40])
   \<and> \<not> check_cluster_safety (safety example_config) (example_cluster [example_node 97 40])
   \<and> evaluate_and_scale example_config (Inr (example_cluster [example_node 97 40]))
        example_tracked
        resize_ok 1000 init_ScalingEngine
      = (Inr [], init_ScalingEngine, [init_ScalingEngine])
   \<and> \<not> enable_host_protection ((safety example_config)\<lparr>enable_host_protection := False\<rparr>)
   \<and> check_cluster_safety ((safety example_config)\<lparr>enable_host_protection := False\<rparr>)
        (example_cluster [example_node 97 40])"
proof -
  have e: "enable_host_protection (safety example_config)"
    by (simp add: example_config_def example_safety_def)
  have g: "gate_closed (safety example_config) (example_cluster [example_node 97 40])"
    using example_gate_97 by (simp add: example_config_def)
  have d: "\<not> enable_host_protection
              (safety (example_config\<lparr>safety := (safety example_config)\<lparr>enable_host_protection := False\<rparr>\<rparr>))"
    by simp
  show ?thesis
    using e g d
      cluster_safety_gate [of example_config "example_cluster [example_node 97 40]"
        example_tracked resize_ok 1000 init_ScalingEngine]
      cluster_safety_gate [of "example_config\<lparr>safety := (safety example_config)\<lparr>enable_host_protection := False\<rparr>\<rparr>"
         "example_cluster [example_node 97 40]"]
    by simp
qed

lemma availability_nonneg:
  "0 \<le> cpu_available_percent (get_resource_availability cm)
   \<and> 0 \<le> memory_available_percent (get_resource_availability cm)"
  by (simp add: get_resource_availability_def Let_def)

text \<open>
  C10. With no node metrics the availability is 0 percent for CPU and for memory; no
  node exceeds a threshold, yet with host protection enabled the gate is closed and the
  tick yields no decision. The availability is never negative.
\<close>

theorem no_nodes_closes_gate:
  "(node_metrics cm = [] \<longrightarrow>
      get_resource_availability cm = \<lparr>cpu_available_percent = 0, memory_available_percent = 0\<rparr>
      \<and> \<not> (\<exists>n \<in> set (node_metrics cm).
              NodeMetrics.cpu_usage_percent n > max_cpu_usage_threshold (safety config)
              \<or> NodeMetrics.memory_usage_percent n > max_memory_usage_threshold (safety config))
      \<and> (enable_host_protection (safety config) \<longrightarrow>
            \<not> check_cluster_safety (safety config) cm
            \<and> evaluate_and_scale config (Inr cm) tracked resize now self = (Inr [], self, [self])))
   \<and> 0 \<le> cpu_available_percent (get_resource_availability cm)
   \<and> 0 \<le> memory_available_percent (get_resource_availability cm)"
proof -
  have "get_resource_availability cm = \<lparr>cpu_available_percent = 0, memory_available_percent = 0\<rparr>"
    if "node_metrics cm = []"
    using that by (simp add: get_resource_availability_def)
  moreover have "\<not> check_cluster_safety (safety config) cm"
    if "node_metrics cm = []" "enable_host_protection (safety config)"
    using that by (simp add: check_cluster_safety_def get_resource_availability_def)
  ultimately show ?thesis
    using availability_nonneg [of cm] evaluate_and_scale_gate_closed [of config cm tracked resize now self]
    by auto
qed

theorem no_nodes_closes_gate_witness:
  "node_metrics (example_cluster []) = []
   \<and> enable_host_protection (safety example_config)
   \<and> get_resource_availability (example_cluster [])
       = \<lparr>cpu_available_percent = 0, memory_available_percent = 0\<rparr>
   \<and> \<not> check_cluster_safety (safety example_config) (example_cluster [])
   \<and> evaluate_and_scale example_config (Inr (example_cluster []))
        example_tracked
        resize_ok 1000 init_ScalingEngine
      = (Inr [], init_ScalingEngine, [init_ScalingEngine])"
proof -
  have n: "node_metrics (example_cluster []) = []" by (simp add: example_cluster_def)
  have e: "enable_host_protection (safety example_config)"
    by (simp add: example_config_def example_safety_def)
  show ?thesis
    using n e no_nodes_closes_gate [of "example_cluster []" example_config
        example_tracked resize_ok 1000 init_ScalingEngine]
    by simp
qed

subsection \<open>Threshold evaluation\<close>

lemma make_scaling_decision_first_match:
  "first_matching_rule (thresholds cfg) em = Some r \<Longrightarrow>
     \<exists>d. make_scaling_decision cfg cm em now = Inr d
        \<and> decision_outcome d = rule_outcome (limits cfg) em r"
  by (cases r)
     (auto simp: first_matching_rule_def priority_order_def make_scaling_decision_def
        decision_outcome_def Let_def split: if_splits)

lemma make_scaling_decision_no_match:
  "first_matching_rule (thresholds cfg) em = None \<Longrightarrow>
     make_scaling_decision cfg cm em now = Inl AttributeError"
  by (auto simp: first_matching_rule_def priority_order_def make_scaling_decision_def
        Let_def split: if_splits)

lemma first_matching_rule_cases:
  "first_matching_rule th m =
     (if ResourceMetrics.cpu_usage_percent m \<ge> cpu_scale_up th then Some CpuUp
      else if ResourceMetrics.memory_usage_percent m \<ge> memory_scale_up th then Some MemoryUp
      else if ResourceMetrics.cpu_usage_percent m \<le> cpu_scale_down th then Some CpuDown
      else if ResourceMetrics.memory_usage_percent m \<le> memory_scale_down th then Some MemoryDown
      else None)"
  by (simp add: first_matching_rule_def priority_order_def)

text \<open>
  When one of the four thresholds matches the averaged sample, the decision is the
  outcome of the first rule that matches, in the order cpu-up, memory-up, cpu-down,
  memory-down: the proposed target is the current value plus or minus the step, clamped
  with \<open>min\<close> to the maximum or with \<open>max\<close> to the minimum; the scaling action is
  emitted when the target differs from the current value and no action with reason
  \<open>RESOURCE_LIMIT_REACHED\<close> otherwise. When the CPU percentage is at least cpu-up and
  the memory percentage at most memory-down, it is the cpu-up rule that decides.
\<close>

lemma make_scaling_decision_priority:
  "(first_matching_rule (thresholds cfg) em = Some r \<longrightarrow>
      (\<exists>d. make_scaling_decision cfg cm em now = Inr d
         \<and> decision_outcome d = rule_outcome (limits cfg) em r))
   \<and> (ResourceMetrics.cpu_usage_percent em \<ge> cpu_scale_up (thresholds cfg)
        \<and> ResourceMetrics.memory_usage_percent em \<le> memory_scale_down (thresholds cfg) \<longrightarrow>
      (\<exists>d. make_scaling_decision cfg cm em now = Inr d
         \<and> decision_outcome d = rule_outcome (limits cfg) em CpuUp))"
  using make_scaling_decision_first_match [of cfg em r cm now]
    make_scaling_decision_first_match [of cfg em CpuUp cm now]
  by (simp add: first_matching_rule_cases)


text \<open>Scenario S6 (82 percent CPU, 20 percent memory, two cores) scales the CPU up to
  three cores; 20 percent CPU and 20 percent memory scale the CPU down, not the memory.\<close>

lemma make_scaling_decision_priority_examples:
  "first_matching_rule (thresholds example_container_config) (example_sample 3 82 20 2) = Some CpuUp
   \<and> ResourceMetrics.cpu_usage_percent (example_sample 3 82 20 2)
      \<ge> cpu_scale_up (thresholds example_container_config)
   \<and> ResourceMetrics.memory_usage_percent (example_sample 3 82 20 2)
      \<le> memory_scale_down (thresholds example_container_config)
   \<and> map_sum id decision_outcome
        (make_scaling_decision example_container_config (example_container [])
           (example_sample 3 82 20 2) 1000)
      = Inr (SCALE_UP_CPU, CPU_HIGH, Some 3, None)
   \<and> first_matching_rule (thresholds example_container_config) (example_sample 3 20 20 2) = Some CpuDown
   \<and> map_sum id decision_outcome
        (make_scaling_decision example_container_config (example_container [])
           (example_sample 3 20 20 2) 1000)
      = Inr (SCALE_DOWN_CPU, CPU_LOW, Some 1, None)"
proof -
  have a: "first_matching_rule (thresholds example_container_config) (example_sample 3 82 20 2) = Some CpuUp"
    by (simp add: first_matching_rule_cases example_container_config_def example_sample_def)
  have b: "first_matching_rule (thresholds example_container_config) (example_sample 3 20 20 2) = Some CpuDown"
    by (simp add: first_matching_rule_cases example_container_config_def example_sample_def)
  have c: "ResourceMetrics.cpu_usage_percent (example_sample 3 82 20 2)
      \<ge> cpu_scale_up (thresholds example_container_config)
   \<and> ResourceMetrics.memory_usage_percent (example_sample 3 82 20 2)
      \<le> memory_scale_down (thresholds example_container_config)"
    by (simp add: example_container_config_def example_sample_def)
  have ra: "rule_outcome (limits example_container_config) (example_sample 3 82 20 2) CpuUp
             = (SCALE_UP_CPU, CPU_HIGH, Some 3, None)"
    by (simp add: example_container_config_def example_sample_def)
  have rb: "rule_outcome (limits example_container_config) (example_sample 3 20 20 2) CpuDown
             = (SCALE_DOWN_CPU, CPU_LOW, Some 1, None)"
    by (simp add: example_container_config_def example_sample_def)
  from make_scaling_decision_priority [of example_container_config "example_sample 3 82 20 2" CpuUp
        "example_container []" 1000] a c ra
  have A: "map_sum id decision_outcome
        (make_scaling_decision example_container_config (example_container [])
           (example_sample 3 82 20 2) 1000) = Inr (SCALE_UP_CPU, CPU_HIGH, Some 3, None)"
    by auto
  from make_scaling_decision_priority [of example_container_config "example_sample 3 20 20 2" CpuDown
        "example_container []" 1000] b rb
  have B: "map_sum id decision_outcome
        (make_scaling_decision example_container_config (example_container [])
           (example_sample 3 20 20 2) 1000) = Inr (SCALE_DOWN_CPU, CPU_LOW, Some 1, None)"
    by auto
  from a b c A B show ?thesis by blast
qed

subsection \<open>Preflight checks\<close>

lemma decision_outcome_no_action [simp]:
  "decision_outcome (no_action_decision v n r c m now) = (NO_ACTION, r, None, None)"
  by (simp add: decision_outcome_def no_action_decision_def)

lemma is_in_cooldown_iff:
  "is_in_cooldown h c now = (\<exists>t. last_scaling_time h = Some t \<and> now - t < real_of_int c)"
  by (simp add: is_in_cooldown_def Let_def split: option.splits)

text \<open>
  C3. The evaluation of a container applies its short-circuits in this order, each
  giving no action with the stated reason and no target: no metrics tracked for the
  vmid gives \<open>INSUFFICIENT_DATA\<close>; a status other than \<^verbatim>\<open>running\<close> gives
  \<open>CONTAINER_NOT_RUNNING\<close>; an active operation registered for the vmid gives
  \<open>COOLDOWN_PERIOD\<close>; a last scaling time less than \<open>cooldown_seconds\<close> ago gives
  \<open>COOLDOWN_PERIOD\<close>; fewer buffered samples than \<open>evaluation_periods\<close> gives
  \<open>INSUFFICIENT_DATA\<close>. When all five checks pass (and \<open>evaluation_periods \<ge> 1\<close>, as
  \<^verbatim>\<open>ContainerConfig.__post_init__\<close> demands) the result is the threshold decision on
  the averaged sample.
\<close>

theorem evaluate_container_scaling_preflight:
  "(tracked (ContainerConfig.vmid cfg) = None \<longrightarrow>
      map_sum id decision_outcome (evaluate_container_scaling tracked self cfg now)
        = Inr (NO_ACTION, INSUFFICIENT_DATA, None, None))
   \<and> (tracked (ContainerConfig.vmid cfg) = Some cm \<longrightarrow>
        (if status cm \<noteq> ''running'' then
           map_sum id decision_outcome (evaluate_container_scaling tracked self cfg now)
             = Inr (NO_ACTION, CONTAINER_NOT_RUNNING, None, None)
         else if ContainerConfig.vmid cfg \<in> dom (active_operations self) then
           map_sum id decision_outcome (evaluate_container_scaling tracked self cfg now)
             = Inr (NO_ACTION, COOLDOWN_PERIOD, None, None)
         else if (\<exists>t. last_scaling_time (get_history self (ContainerConfig.vmid cfg)) = Some t
                    \<and> now - t < real_of_int (cooldown_seconds cfg)) then
           map_sum id decision_outcome (evaluate_container_scaling tracked self cfg now)
             = Inr (NO_ACTION, COOLDOWN_PERIOD, None, None)
         else if int (length (historical_metrics cm)) < evaluation_periods cfg then
           map_sum id decision_outcome (evaluate_container_scaling tracked self cfg now)
             = Inr (NO_ACTION, INSUFFICIENT_DATA, None, None)
         else 1 \<le> evaluation_periods cfg \<longrightarrow>
           (\<exists>em. get_average_metrics cm (evaluation_periods cfg) = Inr (Some em)
              \<and> evaluate_container_scaling tracked self cfg now
                  = make_scaling_decision cfg cm em now)))"
proof (intro conjI impI)
  assume "tracked (ContainerConfig.vmid cfg) = None"
  then show "map_sum id decision_outcome (evaluate_container_scaling tracked self cfg now)
        = Inr (NO_ACTION, INSUFFICIENT_DATA, None, None)"
    by (simp add: evaluate_container_scaling_def Let_def)
next
  assume t: "tracked (ContainerConfig.vmid cfg) = Some cm"
  have avg: "\<exists>em. get_average_metrics cm (evaluation_periods cfg) = Inr (Some em)"
    if "1 \<le> evaluation_periods cfg" "\<not> int (length (historical_metrics cm)) < evaluation_periods cfg"
  proof -
    have "slice_last (evaluation_periods cfg) (historical_metrics cm) \<noteq> []"
      using that by (auto simp: slice_last_def)
    then show ?thesis using that by (simp add: get_average_metrics_def Let_def)
  qed
  show "(if status cm \<noteq> ''running'' then
           map_sum id decision_outcome (evaluate_container_scaling tracked self cfg now)
             = Inr (NO_ACTION, CONTAINER_NOT_RUNNING, None, None)
         else if ContainerConfig.vmid cfg \<in> dom (active_operations self) then
           map_sum id decision_outcome (evaluate_container_scaling tracked self cfg now)
             = Inr (NO_ACTION, COOLDOWN_PERIOD, None, None)
         else if (\<exists>t. last_scaling_time (get_history self (ContainerConfig.vmid cfg)) = Some t
                    \<and> now - t < real_of_int (cooldown_seconds cfg)) then
           map_sum id decision_outcome (evaluate_container_scaling tracked self cfg now)
             = Inr (NO_ACTION, COOLDOWN_PERIOD, None, None)
         else if int (length (historical_metrics cm)) < evaluation_periods cfg then
           map_sum id decision_outcome (evaluate_container_scaling tracked self cfg now)
             = Inr (NO_ACTION, INSUFFICIENT_DATA, None, None)
         else 1 \<le> evaluation_periods cfg \<longrightarrow>
           (\<exists>em. get_average_metrics cm (evaluation_periods cfg) = Inr (Some em)
              \<and> evaluate_container_scaling tracked self cfg now
                  = make_scaling_decision cfg cm em now))"
  proof (cases "status cm \<noteq> ''running''")
    case True
    then show ?thesis using t by (simp add: evaluate_container_scaling_def Let_def)
  next
    case run: False
    show ?thesis
    proof (cases "ContainerConfig.vmid cfg \<in> dom (active_operations self)")
      case True
      then show ?thesis using t run by (simp add: evaluate_container_scaling_def Let_def)
    next
      case act: False
      show ?thesis
      proof (cases "is_in_cooldown (get_history self (ContainerConfig.vmid cfg)) (cooldown_seconds cfg) now")
        case True
        then show ?thesis using t run act
          by (simp add: evaluate_container_scaling_def Let_def is_in_cooldown_iff [symmetric])
      next
        case cool: False
        show ?thesis
        proof (cases "int (length (historical_metrics cm)) < evaluation_periods cfg")
          case True
          then have "get_average_metrics cm (evaluation_periods cfg) = Inr None"
            by (simp add: get_average_metrics_def)
          then show ?thesis using t run act cool True
            by (simp add: evaluate_container_scaling_def Let_def is_in_cooldown_iff [symmetric])
        next
          case False
          show ?thesis
          proof (cases "1 \<le> evaluation_periods cfg")
            case True
            from avg [OF True False] obtain em where
              em: "get_average_metrics cm (evaluation_periods cfg) = Inr (Some em)" ..
            then show ?thesis using t run act cool False True
              by (simp add: evaluate_container_scaling_def Let_def is_in_cooldown_iff [symmetric])
          next
            case f: False
            then show ?thesis using run act cool False
              by (simp add: is_in_cooldown_iff [symmetric])
          qed
        qed
      qed
    qed
  qed
qed

lemmas example_defs = example_samples_def example_tracked_def example_container_def
  example_sample_def example_container_config_def example_config_def example_safety_def
  example_cluster_def example_node_def resize_ok_def init_ScalingEngine_def

lemma example_average:
  "get_average_metrics (example_container example_samples) 3
     = Inr (Some (example_sample 3 (250 / 3) 20 2))"
  by (simp add: example_defs get_average_metrics_def slice_last_def Let_def)

lemma example_evaluate:
  "evaluate_container_scaling example_tracked init_ScalingEngine example_container_config 1000
     = Inr example_decision"
  by (simp add: example_defs evaluate_container_scaling_def get_history_def
      new_ScalingHistory_def is_in_cooldown_def get_average_metrics_def slice_last_def
      make_scaling_decision_def Let_def example_decision_def)

text \<open>
  A container that is not tracked; scenario S4 (two samples, three needed); scenario S3
  (an operation completed at 900, evaluated at 1000 with a cooldown of 300 seconds);
  scenario S1, where all checks pass and the threshold decision is computed.
\<close>

theorem evaluate_container_scaling_preflight_witness:
  "Map.empty (ContainerConfig.vmid example_container_config) = (None :: ContainerMetrics option)
   \<and> map_sum id decision_outcome
        (evaluate_container_scaling Map.empty init_ScalingEngine example_container_config 1000)
       = Inr (NO_ACTION, INSUFFICIENT_DATA, None, None)
   \<and> [101 \<mapsto> example_container [example_sample 1 82 20 2, example_sample 2 85 20 2]]
        (ContainerConfig.vmid example_container_config)
       = Some (example_container [example_sample 1 82 20 2, example_sample 2 85 20 2])
   \<and> map_sum id decision_outcome
        (evaluate_container_scaling
           [101 \<mapsto> example_container [example_sample 1 82 20 2, example_sample 2 85 20 2]]
           init_ScalingEngine example_container_config 1000)
       = Inr (NO_ACTION, INSUFFICIENT_DATA, None, None)
   \<and> example_tracked (ContainerConfig.vmid example_container_config)
       = Some (example_container example_samples)
   \<and> map_sum id decision_outcome
        (evaluate_container_scaling example_tracked
           (init_ScalingEngine\<lparr>scaling_history :=
              [101 \<mapsto> record_operation (new_ScalingHistory 101)
                              (complete_success example_operation 900)]\<rparr>)
           example_container_config 1000)
       = Inr (NO_ACTION, COOLDOWN_PERIOD, None, None)
   \<and> 1 \<le> evaluation_periods example_container_config
   \<and> evaluate_container_scaling example_tracked init_ScalingEngine example_container_config 1000
       = make_scaling_decision example_container_config (example_container example_samples)
           (example_sample 3 (250 / 3) 20 2) 1000"
proof -
  have v: "ContainerConfig.vmid example_container_config = 101"
    by (simp add: example_container_config_def)
  have a: "Map.empty (ContainerConfig.vmid example_container_config) = (None :: ContainerMetrics option)"
    by simp
  have b: "[101 \<mapsto> example_container [example_sample 1 82 20 2, example_sample 2 85 20 2]]
        (ContainerConfig.vmid example_container_config)
       = Some (example_container [example_sample 1 82 20 2, example_sample 2 85 20 2])"
    by (simp add: v)
  have c: "example_tracked (ContainerConfig.vmid example_container_config)
       = Some (example_container example_samples)"
    by (simp add: v example_tracked_def)
  have p: "1 \<le> evaluation_periods example_container_config"
    by (simp add: example_container_config_def)
  have A: "map_sum id decision_outcome
        (evaluate_container_scaling Map.empty init_ScalingEngine example_container_config 1000)
       = Inr (NO_ACTION, INSUFFICIENT_DATA, None, None)"
    using evaluate_container_scaling_preflight
            [of Map.empty example_container_config init_ScalingEngine 1000] a
    by simp
  have B: "map_sum id decision_outcome
        (evaluate_container_scaling
           [101 \<mapsto> example_container [example_sample 1 82 20 2, example_sample 2 85 20 2]]
           init_ScalingEngine example_container_config 1000)
       = Inr (NO_ACTION, INSUFFICIENT_DATA, None, None)"
    using evaluate_container_scaling_preflight
            [of "[101 \<mapsto> example_container [example_sample 1 82 20 2, example_sample 2 85 20 2]]"
                example_container_config init_ScalingEngine 1000
                "example_container [example_sample 1 82 20 2, example_sample 2 85 20 2]"] b
    by (simp add: example_defs get_history_def new_ScalingHistory_def)
  have C: "map_sum id decision_outcome
        (evaluate_container_scaling example_tracked
           (init_ScalingEngine\<lparr>scaling_history :=
              [101 \<mapsto> record_operation (new_ScalingHistory 101)
                              (complete_success example_operation 900)]\<rparr>)
           example_container_config 1000)
       = Inr (NO_ACTION, COOLDOWN_PERIOD, None, None)"
    using evaluate_container_scaling_preflight
            [of example_tracked example_container_config
                "init_ScalingEngine\<lparr>scaling_history :=
                   [101 \<mapsto> record_operation (new_ScalingHistory 101)
                                   (complete_success example_operation 900)]\<rparr>" 1000
                "example_container example_samples"] c
    by (simp add: example_defs get_history_def new_ScalingHistory_def record_operation_def
          complete_success_def is_completed_def is_successful_def example_operation_def Let_def)
  have D: "evaluate_container_scaling example_tracked init_ScalingEngine example_container_config 1000
       = make_scaling_decision example_container_config (example_container example_samples)
           (example_sample 3 (250 / 3) 20 2) 1000"
    using evaluate_container_scaling_preflight
            [of example_tracked example_container_config init_ScalingEngine 1000
                "example_container example_samples"] c p example_average
    by (simp add: example_defs get_history_def new_ScalingHistory_def)
  from a b c p A B C D show ?thesis by blast
qed

subsection \<open>The shape of decisions\<close>

lemma shape_no_action_decision: "decision_shape_ok (no_action_decision v n r c m now)"
  by (simp add: decision_shape_ok_def no_action_decision_def)

lemma shape_make_scaling_decision:
  "make_scaling_decision cfg cm em now = Inr d \<Longrightarrow> decision_shape_ok d"
  by (auto simp: make_scaling_decision_def decision_shape_ok_def Let_def split: if_splits)

lemma shape_evaluate_container_scaling:
  "evaluate_container_scaling tracked self cfg now = Inr d \<Longrightarrow> decision_shape_ok d"
  by (auto simp: evaluate_container_scaling_def Let_def shape_no_action_decision
        split: option.splits if_splits sum.splits dest: shape_make_scaling_decision)

lemma shape_generate_scaling_decisions:
  "generate_scaling_decisions tracked self cs now = Inr ds \<Longrightarrow> \<forall>d \<in> set ds. decision_shape_ok d"
proof (induction cs arbitrary: ds)
  case Nil
  then show ?case by simp
next
  case (Cons c cs)
  then show ?case
    by (auto split: if_splits sum.splits dest: shape_evaluate_container_scaling)
qed

lemma execute_decisions_subset:
  "set (fst (execute_decisions config resize now self ds)) \<subseteq> set ds"
proof (induction ds arbitrary: self)
  case Nil
  then show ?case by simp
next
  case (Cons d ds)
  show ?case
  proof (cases "requires_scaling d")
    case True
    obtain ok s1 v1 where e: "execute_scaling_decision config resize now now self d = (ok, s1, v1)"
      by (cases "execute_scaling_decision config resize now now self d") auto
    obtain ex s2 v2 where r: "execute_decisions config resize now s1 ds = (ex, s2, v2)"
      by (cases "execute_decisions config resize now s1 ds") auto
    from Cons.IH [of s1] r have "set ex \<subseteq> set ds" by simp
    then show ?thesis using True e r by auto
  next
    case False
    obtain ex s2 v2 where r: "execute_decisions config resize now self ds = (ex, s2, v2)"
      by (cases "execute_decisions config resize now self ds") auto
    from Cons.IH [of self] r have "set ex \<subseteq> set ds" by simp
    then show ?thesis using False r by auto
  qed
qed

lemma shape_evaluate_and_scale:
  assumes "fst (evaluate_and_scale config collected tracked resize now self) = Inr ds"
  shows "\<forall>d \<in> set ds. decision_shape_ok d"
proof (cases collected)
  case (Inl e)
  then show ?thesis using assms by (simp add: evaluate_and_scale_def)
next
  case (Inr cluster)
  show ?thesis
  proof (cases "check_cluster_safety (safety config) cluster")
    case False
    then show ?thesis using assms Inr by (simp add: evaluate_and_scale_def)
  next
    case True
    show ?thesis
    proof (cases "generate_scaling_decisions tracked self (containers config) now")
      case (Inl e)
      then show ?thesis using assms Inr True by (simp add: evaluate_and_scale_def)
    next
      case gen: (Inr decisions)
      obtain ex s1 v1 where r: "execute_decisions config resize now self decisions = (ex, s1, v1)"
        by (cases "execute_decisions config resize now self decisions") auto
      have "ds = ex" using assms Inr True gen r by (simp add: evaluate_and_scale_def)
      moreover have "set ex \<subseteq> set decisions"
        using execute_decisions_subset [of config resize now self decisions] r by simp
      ultimately show ?thesis using shape_generate_scaling_decisions [OF gen] by blast
    qed
  qed
qed

text \<open>
  C5. Every decision the engine produces (by the threshold evaluation, by the evaluation
  of a container, and in the list a tick returns) has the shape of the specification:
  no action means no target at all; an action means exactly one target, the cores for
  the CPU actions and the memory for the memory actions.
\<close>

theorem decisions_shape_invariant:
  "(make_scaling_decision cfg cm em now = Inr d \<longrightarrow> decision_shape_ok d)
   \<and> (evaluate_container_scaling tracked self cfg now = Inr d \<longrightarrow> decision_shape_ok d)
   \<and> (fst (evaluate_and_scale config collected tracked resize now self) = Inr ds
        \<longrightarrow> (\<forall>x \<in> set ds. decision_shape_ok x))"
  using shape_make_scaling_decision [of cfg cm em now d]
    shape_evaluate_container_scaling [of tracked self cfg now d]
    shape_evaluate_and_scale [of config collected tracked resize now self ds]
  by blast

lemma example_generate:
  "generate_scaling_decisions example_tracked init_ScalingEngine (containers example_config) 1000
     = Inr [example_decision]"
  using example_evaluate by (simp add: example_config_def example_container_config_def)

lemma example_safe:
  "check_cluster_safety (safety example_config) (example_cluster [example_node 50 40])"
  by (simp add: check_cluster_safety_def get_resource_availability_def example_defs Let_def)

lemma example_tick_result:
  "fst (evaluate_and_scale example_config (Inr (example_cluster [example_node 50 40]))
          example_tracked resize_ok 1000 init_ScalingEngine) = Inr [example_decision]"
  using example_generate example_safe
  by (simp add: evaluate_and_scale_def execute_scaling_decision_def requires_scaling_def
      example_decision_def Let_def init_ScalingEngine_def example_config_def resize_ok_def)

text \<open>Scenario S1: the decision to go from two to three cores sets the target cores
  only, as computed, as evaluated, and as returned by the tick.\<close>

theorem decisions_shape_invariant_witness:
  "make_scaling_decision example_container_config (example_container example_samples)
      (example_sample 3 (250 / 3) 20 2) 1000 = Inr example_decision
   \<and> evaluate_container_scaling example_tracked init_ScalingEngine example_container_config 1000
       = Inr example_decision
   \<and> fst (evaluate_and_scale example_config (Inr (example_cluster [example_node 50 40]))
            example_tracked resize_ok 1000 init_ScalingEngine) = Inr [example_decision]
   \<and> decision_shape_ok example_decision
   \<and> target_cpu_cores example_decision = Some 3
   \<and> target_memory_mb example_decision = None"
proof -
  have a: "make_scaling_decision example_container_config (example_container example_samples)
      (example_sample 3 (250 / 3) 20 2) 1000 = Inr example_decision"
    by (simp add: make_scaling_decision_def example_defs example_decision_def Let_def)
  from decisions_shape_invariant
         [of example_container_config "example_container example_samples"
             "example_sample 3 (250 / 3) 20 2" 1000 example_decision
             example_tracked init_ScalingEngine
             example_config "Inr (example_cluster [example_node 50 40])" resize_ok
             "[example_decision]"]
       a example_evaluate example_tick_result
  show ?thesis by (simp add: example_decision_def)
qed

subsection \<open>Registered operations\<close>

lemma execute_scaling_decision_active:
  assumes "active_operations self = Map.empty"
    and "execute_scaling_decision config resize t1 t2 self d = (ok, s', visited)"
  shows "active_operations s' = Map.empty
       \<and> (\<forall>s \<in> set visited. dom (active_operations s) \<subseteq> {ScalingDecision.vmid d})"
  using assms
  by (auto simp: execute_scaling_decision_def Let_def split: if_splits)

lemma execute_decisions_active:
  assumes "active_operations self = Map.empty"
    and "execute_decisions config resize now self ds = (ex, s', visited)"
  shows "active_operations s' = Map.empty
       \<and> (\<forall>s \<in> set visited. finite (dom (active_operations s)) \<and> card (dom (active_operations s)) \<le> 1)"
  using assms
proof (induction ds arbitrary: self ex s' visited)
  case Nil
  then show ?case by simp
next
  case (Cons d ds)
  show ?case
  proof (cases "requires_scaling d")
    case True
    obtain ok s1 v1 where e: "execute_scaling_decision config resize now now self d = (ok, s1, v1)"
      by (cases "execute_scaling_decision config resize now now self d") auto
    obtain ex2 s2 v2 where r: "execute_decisions config resize now s1 ds = (ex2, s2, v2)"
      by (cases "execute_decisions config resize now s1 ds") auto
    from execute_scaling_decision_active [OF Cons.prems(1) e]
    have a1: "active_operations s1 = Map.empty"
      and b1: "\<forall>s \<in> set v1. dom (active_operations s) \<subseteq> {ScalingDecision.vmid d}" by auto
    from Cons.IH [OF a1 r]
    have a2: "active_operations s2 = Map.empty"
      and b2: "\<forall>s \<in> set v2. finite (dom (active_operations s)) \<and> card (dom (active_operations s)) \<le> 1"
      by auto
    have c1: "finite (dom (active_operations s)) \<and> card (dom (active_operations s)) \<le> 1"
      if "s \<in> set v1" for s
    proof -
      from b1 that have sub: "dom (active_operations s) \<subseteq> {ScalingDecision.vmid d}" by blast
      then have "finite (dom (active_operations s))" by (rule finite_subset) simp
      moreover have "card (dom (active_operations s)) \<le> card {ScalingDecision.vmid d}"
        using sub by (intro card_mono) auto
      ultimately show ?thesis by simp
    qed
    from Cons.prems(2) True e r have "s' = s2" "visited = v1 @ v2" by auto
    then show ?thesis using a2 b2 c1 by auto
  next
    case False
    obtain ex2 s2 v2 where r: "execute_decisions config resize now self ds = (ex2, s2, v2)"
      by (cases "execute_decisions config resize now self ds") auto
    from Cons.prems(2) False r have "s' = s2" "visited = v2" by auto
    then show ?thesis using Cons.IH [OF Cons.prems(1) r] by simp
  qed
qed

lemma engine_between_ticks_idle:
  "engine_between_ticks self \<Longrightarrow> active_operations self = Map.empty"
proof (induction rule: engine_between_ticks.induct)
  case initial
  show ?case by (simp add: init_ScalingEngine_def)
next
  case (after_tick self config collected tracked resize now self')
  show ?case
  proof (cases collected)
    case (Inl e)
    then show ?thesis using after_tick by (auto simp: evaluate_and_scale_def)
  next
    case (Inr cluster)
    show ?thesis
    proof (cases "check_cluster_safety (safety config) cluster")
      case False
      then show ?thesis using after_tick Inr by (auto simp: evaluate_and_scale_def)
    next
      case True
      show ?thesis
      proof (cases "generate_scaling_decisions tracked self (containers config) now")
        case (Inl e)
        then show ?thesis using after_tick Inr True by (auto simp: evaluate_and_scale_def)
      next
        case gen: (Inr decisions)
        obtain ex s1 v1 where
          r: "execute_decisions config resize now self decisions = (ex, s1, v1)"
          by (cases "execute_decisions config resize now self decisions") auto
        from execute_decisions_active [OF after_tick.IH r]
        have "active_operations s1 = Map.empty" by simp
        moreover have "self' = s1"
          using after_tick.hyps(2) Inr True gen r by (simp add: evaluate_and_scale_def)
        ultimately show ?thesis by simp
      qed
    qed
  qed
qed

lemma tick_active_operations:
  assumes "active_operations self = Map.empty"
  shows "\<forall>s \<in> set (snd (snd (evaluate_and_scale config collected tracked resize now self))).
           finite (dom (active_operations s)) \<and> card (dom (active_operations s)) \<le> 1"
proof (cases collected)
  case (Inl e)
  then show ?thesis using assms by (simp add: evaluate_and_scale_def)
next
  case (Inr cluster)
  show ?thesis
  proof (cases "check_cluster_safety (safety config) cluster")
    case False
    then show ?thesis using assms Inr by (simp add: evaluate_and_scale_def)
  next
    case True
    show ?thesis
    proof (cases "generate_scaling_decisions tracked self (containers config) now")
      case (Inl e)
      then show ?thesis using assms Inr True by (simp add: evaluate_and_scale_def)
    next
      case gen: (Inr decisions)
      obtain ex s1 v1 where
        r: "execute_decisions config resize now self decisions = (ex, s1, v1)"
        by (cases "execute_decisions config resize now self decisions") auto
      have "evaluate_and_scale config collected tracked resize now self
              = (Inr ex, s1, self # v1)"
        using Inr True gen r by (simp add: evaluate_and_scale_def)
      then show ?thesis using execute_decisions_active [OF assms r] assms by simp
    qed
  qed
qed

text \<open>
  C7. In every engine state a tick passes through, started in any state the engine
  can be in between ticks, the number of entries of \<open>active_operations\<close> is at most
  \<open>max_concurrent_operations\<close> (which \<^verbatim>\<open>SafetyConfig.__post_init__\<close> keeps at 1 or
  more): a decision is registered, applied and removed before the next one is
  registered, so at most one entry exists at a time.
\<close>

theorem active_operations_bounded:
  assumes "engine_between_ticks self"
    and "SafetyConfig_post_init_ok (safety config)"
  shows "\<forall>s \<in> set (snd (snd (evaluate_and_scale config collected tracked resize now self))).
           finite (dom (active_operations s))
           \<and> int (card (dom (active_operations s))) \<le> max_concurrent_operations (safety config)"
proof
  fix s
  assume s: "s \<in> set (snd (snd (evaluate_and_scale config collected tracked resize now self)))"
  have m: "1 \<le> max_concurrent_operations (safety config)"
    using assms(2) by (simp add: SafetyConfig_post_init_ok_def)
  from tick_active_operations [OF engine_between_ticks_idle [OF assms(1)]] s
  have "finite (dom (active_operations s))" and "card (dom (active_operations s)) \<le> 1"
    by blast+
  with m show "finite (dom (active_operations s))
           \<and> int (card (dom (active_operations s))) \<le> max_concurrent_operations (safety config)"
    by simp
qed

lemma example_tick_counts:
  "map (\<lambda>s. card (dom (active_operations s)))
     (snd (snd (evaluate_and_scale example_config (Inr (example_cluster [example_node 50 40]))
        example_tracked resize_ok 1000 init_ScalingEngine)))
   = [0, 1, 1, 1, 0]"
  using example_generate example_safe
  by (simp add: evaluate_and_scale_def execute_scaling_decision_def requires_scaling_def
      example_decision_def Let_def init_ScalingEngine_def example_config_def resize_ok_def)

text \<open>The tick of scenario S1 on the initial engine, with three operations allowed:
  the numbers of registered operations in the states it passes through are 0, 1, 1, 1, 0.\<close>

theorem active_operations_bounded_witness:
  "engine_between_ticks init_ScalingEngine
   \<and> SafetyConfig_post_init_ok (safety example_config)
   \<and> max_concurrent_operations (safety example_config) = 3
   \<and> map (\<lambda>s. card (dom (active_operations s)))
        (snd (snd (evaluate_and_scale example_config (Inr (example_cluster [example_node 50 40]))
           example_tracked resize_ok 1000 init_ScalingEngine)))
      = [0, 1, 1, 1, 0]
   \<and> list_all (\<lambda>s. int (card (dom (active_operations s)))
                        \<le> max_concurrent_operations (safety example_config))
        (snd (snd (evaluate_and_scale example_config (Inr (example_cluster [example_node 50 40]))
           example_tracked resize_ok 1000 init_ScalingEngine)))"
proof -
  have a: "engine_between_ticks init_ScalingEngine" by (rule engine_between_ticks.initial)
  have b: "SafetyConfig_post_init_ok (safety example_config)"
    by (simp add: SafetyConfig_post_init_ok_def example_config_def example_safety_def)
  have c: "max_concurrent_operations (safety example_config) = 3"
    by (simp add: example_config_def example_safety_def)
  from active_operations_bounded [OF a b, of "Inr (example_cluster [example_node 50 40])"
         example_tracked resize_ok 1000]
  have d: "list_all (\<lambda>s. int (card (dom (active_operations s)))
                        \<le> max_concurrent_operations (safety example_config))
        (snd (snd (evaluate_and_scale example_config (Inr (example_cluster [example_node 50 40]))
           example_tracked resize_ok 1000 init_ScalingEngine)))"
    by (simp add: list_all_iff)
  from a b c d example_tick_counts show ?thesis by blast
qed

subsection \<open>No threshold matches\<close>

text \<open>
  C1. The threshold evaluation is to emit no action with reason \<open>no_action\<close> when no
  threshold matches, and the source attempts it: its last \<^verbatim>\<open>return\<close>, under the
  comment \<^verbatim>\<open># No scaling needed\<close>, builds a decision with action
  \<^verbatim>\<open>ScalingAction.NO_ACTION\<close> and reason \<^verbatim>\<open>ScalingReason.NO_ACTION\<close>. The enumeration
  \<^verbatim>\<open>ScalingReason\<close> has no such member, so the code does not do it. For the policy of the
  scenarios and a running container, not in cooldown, whose three samples are at 50
  percent CPU and 60 percent memory, all preflight checks pass, the average matches no
  threshold, and instead of a decision the threshold evaluation raises
  \<^verbatim>\<open>AttributeError\<close>; the evaluation of the container raises it too, and the tick ends
  in \<^verbatim>\<open>ScalingEngineError\<close> with no decision returned and the engine unchanged.
\<close>

theorem make_scaling_decision_no_action_raises:
  "get_average_metrics (example_container example_idle_samples) 3
     = Inr (Some (example_sample 3 50 60 2))
   \<and> first_matching_rule (thresholds example_container_config) (example_sample 3 50 60 2) = None
   \<and> make_scaling_decision example_container_config (example_container example_idle_samples)
        (example_sample 3 50 60 2) 1000 = Inl AttributeError
   \<and> evaluate_container_scaling example_idle_tracked init_ScalingEngine
        example_container_config 1000 = Inl AttributeError
   \<and> evaluate_and_scale example_config (Inr (example_cluster [example_node 50 40]))
        example_idle_tracked resize_ok 1000 init_ScalingEngine
      = (Inl ScalingEngineError, init_ScalingEngine, [init_ScalingEngine])"
proof -
  have avg: "get_average_metrics (example_container example_idle_samples) 3
     = Inr (Some (example_sample 3 50 60 2))"
    by (simp add: example_idle_samples_def example_container_def example_sample_def
          get_average_metrics_def slice_last_def Let_def)
  have none: "first_matching_rule (thresholds example_container_config)
                (example_sample 3 50 60 2) = None"
    by (simp add: first_matching_rule_cases example_container_config_def example_sample_def)
  have mk: "make_scaling_decision example_container_config
              (example_container example_idle_samples) (example_sample 3 50 60 2) 1000
            = Inl AttributeError"
    using none by (rule make_scaling_decision_no_match)
  have ev: "evaluate_container_scaling example_idle_tracked init_ScalingEngine
              example_container_config 1000 = Inl AttributeError"
    using avg mk
    by (simp add: evaluate_container_scaling_def example_idle_tracked_def Let_def
          example_container_def example_container_config_def init_ScalingEngine_def
          get_history_def new_ScalingHistory_def is_in_cooldown_def example_idle_samples_def)
  have gen: "generate_scaling_decisions example_idle_tracked init_ScalingEngine
               (containers example_config) 1000 = Inl AttributeError"
    using ev by (simp add: example_config_def example_container_config_def)
  have tick: "evaluate_and_scale example_config (Inr (example_cluster [example_node 50 40]))
        example_idle_tracked resize_ok 1000 init_ScalingEngine
      = (Inl ScalingEngineError, init_ScalingEngine, [init_ScalingEngine])"
    using gen example_safe by (simp add: evaluate_and_scale_def)
  from avg none mk ev tick show ?thesis by blast
qed

end
